theory Spec2Isabelle
  imports Main "HOL-Library.Sublist"
begin

section \<open>Plum ecoMAX integration: embedding of the sources\<close>

text \<open>
  The theory embeds the functions of \<^verbatim>\<open>custom_components/plum_ecomax\<close> that the
  specification talks about: the model-name formatter and the config-entry migration of
  \<^verbatim>\<open>__init__.py\<close>, the capability discovery of \<^verbatim>\<open>connection.py\<close>, and the target
  resolution, the get-parameter service and the schedule decoder of \<^verbatim>\<open>services.py\<close>,
  together with the alert event dispatcher of \<^verbatim>\<open>__init__.py\<close>.

  Python strings are \<^typ>\<open>string\<close>; a character stands for the code point of the same
  number, so the strings covered are those over U+0000 .. U+00FF. Python integers are
  \<^typ>\<open>int\<close>. A dictionary is a map, a raised exception is a value of \<open>error\<close>.
  The interpreter's cap on the number of digits of a converted integer is not modelled.
\<close>

subsection \<open>Exceptions\<close>

datatype error =
    TimeoutError
  | KeyError
  | IndexError
  | TypeError
  | ValueError
  | ParameterNotFoundError
  | HomeAssistantError string

subsection \<open>Characters, decimal numerals and string helpers of the Python runtime\<close>

text \<open>
  The three character classes of the pattern in \<open>format_model_name\<close>, as \<^verbatim>\<open>re\<close>
  reads them for a \<^verbatim>\<open>str\<close> pattern compiled with \<^verbatim>\<open>re.IGNORECASE\<close>:
  \<^verbatim>\<open>[A-Z]\<close> accepts both cases of the ASCII letters, \<^verbatim>\<open>[0-9]\<close> the ASCII digits, and
  \<^verbatim>\<open>\s\<close> the characters for which \<^verbatim>\<open>str.isspace\<close> holds.
\<close>

definition is_letter :: "char \<Rightarrow> bool" where
  "is_letter c =
     (let n = (of_char c :: nat) in (65 \<le> n \<and> n \<le> 90) \<or> (97 \<le> n \<and> n \<le> 122))"

definition is_digit :: "char \<Rightarrow> bool" where
  "is_digit c = (let n = (of_char c :: nat) in 48 \<le> n \<and> n \<le> 57)"

definition is_space :: "char \<Rightarrow> bool" where
  "is_space c =
     (let n = (of_char c :: nat)
      in (9 \<le> n \<and> n \<le> 13) \<or> (28 \<le> n \<and> n \<le> 32) \<or> n = 133 \<or> n = 160)"

definition newline :: char where
  "newline = CHR 0x0A"

definition digit_char :: "nat \<Rightarrow> char" where
  "digit_char d = char_of (48 + d)"

definition digit_val :: "char \<Rightarrow> nat" where
  "digit_val c = of_char c - 48"

text \<open>\<^verbatim>\<open>str(n)\<close> for a natural number and for an integer.\<close>

fun str_nat :: "nat \<Rightarrow> string" where
  "str_nat n = (if n < 10 then [digit_char n] else str_nat (n div 10) @ [digit_char (n mod 10)])"

declare str_nat.simps [simp del]

definition str_int :: "int \<Rightarrow> string" where
  "str_int i = (if i < 0 then CHR ''-'' # str_nat (nat (- i)) else str_nat (nat i))"

text \<open>
  \<^verbatim>\<open>int(s)\<close> in base ten: surrounding white space is stripped, one sign is accepted, and
  the digits may be grouped by single underscores; anything else is a \<^verbatim>\<open>ValueError\<close>.
  The white space of the conversion is narrower than that of \<^verbatim>\<open>\s\<close>: below U+007F
  only tab, line feed, vertical tab, form feed, carriage return and space count, so
  the separators U+001C to U+001F are not stripped; above it the characters of
  \<^verbatim>\<open>str.isspace\<close> count.
\<close>

definition is_int_space :: "char \<Rightarrow> bool" where
  "is_int_space c =
     (let n = (of_char c :: nat) in (9 \<le> n \<and> n \<le> 13) \<or> n = 32 \<or> n = 133 \<or> n = 160)"

definition int_strip :: "string \<Rightarrow> string" where
  "int_strip s = rev (dropWhile is_int_space (rev (dropWhile is_int_space s)))"

fun digit_groups :: "string \<Rightarrow> bool" where
  "digit_groups [] = False"
| "digit_groups [c] = is_digit c"
| "digit_groups (c # d # cs) =
     (is_digit c \<and> (if d = CHR ''_'' then digit_groups cs else digit_groups (d # cs)))"

definition digits_value :: "string \<Rightarrow> nat" where
  "digits_value ds = foldl (\<lambda>a c. 10 * a + digit_val c) 0 (filter is_digit ds)"

definition py_int :: "string \<Rightarrow> error + int" where
  "py_int s =
     (let t = int_strip s;
          negative = (t \<noteq> [] \<and> hd t = CHR ''-'');
          signed = (t \<noteq> [] \<and> (hd t = CHR ''-'' \<or> hd t = CHR ''+''));
          body = (if signed then tl t else t)
      in if digit_groups body
         then Inr (if negative then - int (digits_value body) else int (digits_value body))
         else Inl ValueError)"



text \<open>\<^verbatim>\<open>s.lower()\<close>.\<close>

definition lower_char :: "char \<Rightarrow> char" where
  "lower_char c =
     (let n = (of_char c :: nat)
      in if (65 \<le> n \<and> n \<le> 90) \<or> (192 \<le> n \<and> n \<le> 222 \<and> n \<noteq> 215) then char_of (n + 32)
         else c)"

definition lower :: "string \<Rightarrow> string" where
  "lower s = map lower_char s"

subsection \<open>Dates and \<^verbatim>\<open>strftime\<close>\<close>

record datetime =
  year :: nat
  month :: nat
  day :: nat
  hour :: nat
  minute :: nat
  second :: nat

definition two_digits :: "nat \<Rightarrow> string" where
  "two_digits n = (if n < 10 then CHR ''0'' # str_nat n else str_nat n)"

text \<open>
  The directives the two format strings of the sources use. \<^verbatim>\<open>%Y\<close> prints the year as
  the C library does, without padding.
\<close>

definition directive :: "datetime \<Rightarrow> char \<Rightarrow> string" where
  "directive t d =
     (if d = CHR ''Y'' then str_nat (year t)
      else if d = CHR ''m'' then two_digits (month t)
      else if d = CHR ''d'' then two_digits (day t)
      else if d = CHR ''H'' then two_digits (hour t)
      else if d = CHR ''M'' then two_digits (minute t)
      else if d = CHR ''S'' then two_digits (second t)
      else [CHR ''%'', d])"

fun strftime :: "datetime \<Rightarrow> string \<Rightarrow> string" where
  "strftime t (c # d # fmt) =
     (if c = CHR ''%'' then directive t d @ strftime t fmt else c # strftime t (d # fmt))"
| "strftime t fmt = fmt"

text \<open>\<^verbatim>\<open>t + datetime.timedelta(minutes=k)\<close>: the clock is advanced, whole days carry
  into the calendar date.\<close>

definition leap_year :: "nat \<Rightarrow> bool" where
  "leap_year y = (y mod 4 = 0 \<and> (y mod 100 \<noteq> 0 \<or> y mod 400 = 0))"

definition days_in_month :: "nat \<Rightarrow> nat \<Rightarrow> nat" where
  "days_in_month y m =
     (if m = 2 then (if leap_year y then 29 else 28)
      else if m = 4 \<or> m = 6 \<or> m = 9 \<or> m = 11 then 30 else 31)"

definition next_day :: "datetime \<Rightarrow> datetime" where
  "next_day t =
     (if day t < days_in_month (year t) (month t) then t\<lparr>day := day t + 1\<rparr>
      else if month t < 12 then t\<lparr>month := month t + 1, day := 1\<rparr>
      else t\<lparr>year := year t + 1, month := 1, day := 1\<rparr>)"

definition add_minutes :: "datetime \<Rightarrow> nat \<Rightarrow> datetime" where
  "add_minutes t k =
     (let total = hour t * 60 + minute t + k
      in ((next_day ^^ (total div 1440)) t)
           \<lparr>hour := total mod 1440 div 60, minute := total mod 60\<rparr>)"

subsection \<open>\<^verbatim>\<open>__init__.py\<close>: \<open>format_model_name\<close>\<close>

text \<open>
  \<^verbatim>\<open>re.match(r"^([A-Z]+)\s{0,}([0-9]{3,})(.+)$", model_name, re.IGNORECASE)\<close>.
  The three classes are disjoint, so the greedy letter and white-space runs are the
  maximal ones. The digit group takes the whole digit run unless nothing would be left
  for \<^verbatim>\<open>(.+)\<close>, in which case it gives back its last digit. \<^verbatim>\<open>.\<close> does not match a
  newline and \<^verbatim>\<open>$\<close> also matches just before a newline that ends the string.
  The result is the triple \<^verbatim>\<open>m.groups()\<close>, or \<open>None\<close> when there is no match.
\<close>

definition model_match :: "string \<Rightarrow> (string \<times> string \<times> string) option" where
  "model_match s =
    (let device = takeWhile is_letter s;
         rest = dropWhile is_space (dropWhile is_letter s);
         digits = takeWhile is_digit rest;
         tail = dropWhile is_digit rest;
         body = (if tail \<noteq> [] \<and> last tail = newline then butlast tail else tail)
     in if device = [] \<or> length digits < 3 \<or> newline \<in> set body then None
        else if body \<noteq> [] then Some (device, digits, body)
        else if 3 < length digits then Some (device, butlast digits, [last digits])
        else None)"

definition format_model_name :: "string \<Rightarrow> string" where
  "format_model_name model_name =
    (case model_match model_name of
       Some (model_device, model_number, model_suffix) \<Rightarrow>
         (if model_device = ''EM'' then ''ecoMAX'' else model_device)
           @ '' '' @ model_number @ model_suffix
     | None \<Rightarrow> model_name)"

text \<open>
  What the pattern says, written without reference to the matcher: a string splits into
  letters, white space, at least three digits, a non-empty rest without newline, and an
  optional final newline.
\<close>

definition pattern_split ::
  "string \<Rightarrow> string \<Rightarrow> string \<Rightarrow> string \<Rightarrow> string \<Rightarrow> string \<Rightarrow> bool" where
  "pattern_split s g1 ws g2 g3 e \<longleftrightarrow>
     s = g1 @ ws @ g2 @ g3 @ e \<and>
     g1 \<noteq> [] \<and> list_all is_letter g1 \<and>
     list_all is_space ws \<and>
     3 \<le> length g2 \<and> list_all is_digit g2 \<and>
     g3 \<noteq> [] \<and> newline \<notin> set g3 \<and>
     (e = [] \<or> e = [newline])"

subsection \<open>\<^verbatim>\<open>__init__.py\<close>: \<open>async_migrate_entry\<close>\<close>

datatype cvalue = VStr string | VInt int | VList "string list"

record config_entry =
  version :: int
  data :: "string \<rightharpoonup> cvalue"

record product_info =
  product_type :: int
  product_id :: int
  product_uid :: string

text \<open>
  Modelled from the spec: \<^verbatim>\<open>const.py\<close> is not among the sources, the keys of the
  persisted record are the field names of the spec's persisted state layout.
\<close>

definition CONF_MODEL :: string where
  "CONF_MODEL = ''model''"

definition CONF_PRODUCT_TYPE :: string where
  "CONF_PRODUCT_TYPE = ''product_type''"

definition CONF_PRODUCT_ID :: string where
  "CONF_PRODUCT_ID = ''product_id''"

definition CONF_CAPABILITIES :: string where
  "CONF_CAPABILITIES = ''capabilities''"

definition CONF_SUB_DEVICES :: string where
  "CONF_SUB_DEVICES = ''sub_devices''"

text \<open>
  The device as the migration sees it: the answer to each of its four queries, \<open>False\<close>
  or \<open>None\<close> standing for \<^verbatim>\<open>asyncio.TimeoutError\<close>. \<open>async_get_sub_devices\<close> is
  imported from \<^verbatim>\<open>connection.py\<close> but not defined in the sources; its answer is a
  parameter.
\<close>

record migration_device =
  get_ecomax :: bool
  product_type_read :: "product_info option"
  sub_devices_read :: "cvalue option"
  product_id_read :: "product_info option"

text \<open>
  The state of a run: the \<open>config_entry\<close> object, whose \<open>version\<close> attribute the code
  assigns in place, and the local dictionary \<open>data\<close>, a copy of the entry's data.
\<close>

record mstate =
  ms_entry :: config_entry
  ms_data :: "string \<rightharpoonup> cvalue"

type_synonym step_result = "(error \<times> mstate) + mstate"

definition then_step :: "step_result \<Rightarrow> (mstate \<Rightarrow> step_result) \<Rightarrow> step_result" where
  "then_step r f = (case r of Inl x \<Rightarrow> Inl x | Inr s \<Rightarrow> f s)"

definition set_version :: "int \<Rightarrow> mstate \<Rightarrow> mstate" where
  "set_version v s = s\<lparr>ms_entry := (ms_entry s)\<lparr>version := v\<rparr>\<rparr>"

definition step_get_device :: "migration_device \<Rightarrow> mstate \<Rightarrow> step_result" where
  "step_get_device dev s = (if get_ecomax dev then Inr s else Inl (TimeoutError, s))"

definition step_product_type :: "migration_device \<Rightarrow> mstate \<Rightarrow> step_result" where
  "step_product_type dev s =
     (if version (ms_entry s) = 1 \<or> version (ms_entry s) = 2 then
        (case product_type_read dev of
           None \<Rightarrow> Inl (TimeoutError, s)
         | Some product \<Rightarrow>
             Inr (set_version 3
                   (s\<lparr>ms_data := (ms_data s)(CONF_PRODUCT_TYPE \<mapsto> VInt (product_type product))\<rparr>)))
      else Inr s)"

definition step_model :: "mstate \<Rightarrow> step_result" where
  "step_model s =
     (if version (ms_entry s) = 3 then
        (case ms_data s CONF_MODEL of
           None \<Rightarrow> Inl (KeyError, s)
         | Some (VStr m) \<Rightarrow>
             Inr (set_version 4 (s\<lparr>ms_data := (ms_data s)(CONF_MODEL \<mapsto> VStr (format_model_name m))\<rparr>))
         | Some _ \<Rightarrow> Inl (TypeError, s))
      else Inr s)"

definition step_sub_devices :: "migration_device \<Rightarrow> mstate \<Rightarrow> step_result" where
  "step_sub_devices dev s =
     (if version (ms_entry s) = 4 \<or> version (ms_entry s) = 5 then
        (let s' = s\<lparr>ms_data := (ms_data s)(CONF_CAPABILITIES := None)\<rparr>
         in case sub_devices_read dev of
              None \<Rightarrow> Inl (TimeoutError, s')
            | Some sub_devices \<Rightarrow>
                Inr (set_version 6 (s'\<lparr>ms_data := (ms_data s')(CONF_SUB_DEVICES \<mapsto> sub_devices)\<rparr>)))
      else Inr s)"

definition step_product_id :: "migration_device \<Rightarrow> mstate \<Rightarrow> step_result" where
  "step_product_id dev s =
     (if version (ms_entry s) = 6 then
        (case product_id_read dev of
           None \<Rightarrow> Inl (TimeoutError, s)
         | Some product \<Rightarrow>
             Inr (set_version 7
                   (s\<lparr>ms_data := (ms_data s)(CONF_PRODUCT_ID \<mapsto> VInt (product_id product))\<rparr>)))
      else Inr s)"

definition migration_body :: "migration_device \<Rightarrow> mstate \<Rightarrow> step_result" where
  "migration_body dev s =
     then_step (then_step (then_step (then_step (step_get_device dev s)
       (step_product_type dev)) step_model) (step_sub_devices dev)) (step_product_id dev)"

text \<open>
  The result is what the caller gets (\<open>Inr\<close> the returned flag, \<open>Inl\<close> an exception that
  escapes) and the \<open>config_entry\<close> object as the run leaves it.
  \<open>async_update_entry\<close> stores the local dictionary into the entry; it is reached only
  when no step raised.
\<close>

definition async_migrate_entry ::
  "migration_device \<Rightarrow> config_entry \<Rightarrow> (error + bool) \<times> config_entry" where
  "async_migrate_entry dev entry =
     (case migration_body dev \<lparr>ms_entry = entry, ms_data = data entry\<rparr> of
        Inr s \<Rightarrow> (Inr True, (ms_entry s)\<lparr>data := ms_data s\<rparr>)
      | Inl (e, s) \<Rightarrow>
          (if e = TimeoutError then (Inr False, ms_entry s) else (Inl e, ms_entry s)))"

subsection \<open>\<^verbatim>\<open>connection.py\<close>: \<open>async_get_device_capabilities\<close>\<close>

text \<open>
  The device as the discovery sees it: whether \<^verbatim>\<open>get_value(ATTR_LOADED)\<close> resolves
  within the time the decorator allows, and the dictionary \<^verbatim>\<open>device.data\<close>. The value
  stored under the mixers key is iterated, each element having an \<open>index\<close> and a
  \<open>data\<close> dictionary; any other value is only looked at through its key.
\<close>

record 'v mixer =
  mixer_index :: int
  mixer_data :: "string \<rightharpoonup> 'v"

datatype 'v dvalue = Value 'v | Mixers "'v mixer list"

record 'v device_state =
  loaded :: bool
  device_data :: "string \<rightharpoonup> 'v dvalue"

text \<open>
  Modelled from the spec: \<^verbatim>\<open>const.py\<close> is not among the sources, \<open>ATTR_MIXERS\<close> and
  \<open>ATTR_WATER_HEATER\<close> are the names the spec gives to the mixer collection and to the
  synthetic token. \<open>ATTR_WATER_HEATER_TEMP\<close> is defined in \<^verbatim>\<open>connection.py\<close>.
\<close>

definition ATTR_MIXERS :: string where
  "ATTR_MIXERS = ''mixers''"

definition ATTR_WATER_HEATER :: string where
  "ATTR_WATER_HEATER = ''water_heater''"

definition ATTR_WATER_HEATER_TEMP :: string where
  "ATTR_WATER_HEATER_TEMP = ''water_heater_temp''"

definition mixers_of :: "'v device_state \<Rightarrow> 'v mixer list" where
  "mixers_of device =
     (case device_data device ATTR_MIXERS of Some (Mixers mixers) \<Rightarrow> mixers | _ \<Rightarrow> [])"

definition mixers_iterable :: "'v device_state \<Rightarrow> bool" where
  "mixers_iterable device =
     (case device_data device ATTR_MIXERS of Some (Value v) \<Rightarrow> False | _ \<Rightarrow> True)"

definition mixer_token :: "int \<Rightarrow> string \<Rightarrow> string" where
  "mixer_token i x = ''mixer_'' @ str_int i @ ''_'' @ x"

definition mixer_tokens :: "'v mixer \<Rightarrow> string set" where
  "mixer_tokens m = mixer_token (mixer_index m) ` dom (mixer_data m)"

definition async_get_device_capabilities :: "'v device_state \<Rightarrow> error + string set" where
  "async_get_device_capabilities device =
     (if \<not> loaded device then Inl TimeoutError
      else
        let capabilities = dom (device_data device);
            updated =
              (if ATTR_MIXERS \<in> capabilities then
                 (case device_data device ATTR_MIXERS of
                    Some (Mixers mixers) \<Rightarrow>
                      Inr (foldl (\<lambda>caps m. caps \<union> mixer_tokens m) capabilities mixers)
                  | _ \<Rightarrow> Inl TypeError)
               else Inr capabilities)
        in case updated of
             Inl e \<Rightarrow> Inl e
           | Inr caps \<Rightarrow>
               Inr (if ATTR_WATER_HEATER_TEMP \<in> caps then insert ATTR_WATER_HEATER caps
                    else caps))"

subsection \<open>\<^verbatim>\<open>services.py\<close>: target resolution and the get-parameter service\<close>

record parameter =
  param_value :: int
  param_min_value :: int
  param_max_value :: int

text \<open>
  A device object as the services use it: its class name, the attributes \<open>index\<close> and
  \<open>parent\<close> (\<open>None\<close> when the object has no such attribute, as \<^verbatim>\<open>hasattr\<close> tests),
  the product that \<^verbatim>\<open>get_nowait(ATTR_PRODUCT, default=None)\<close> returns, the outcome of
  \<^verbatim>\<open>await device.get(name)\<close>, and the dictionary of mixers that
  \<^verbatim>\<open>data.get(ATTR_MIXERS)\<close> returns.
\<close>

datatype device = Device
  (class_name: string)
  (dev_index: "int option")
  (dev_parent: "device option")
  (dev_product: "product_info option")
  (dev_get: "string \<Rightarrow> error + parameter")
  (dev_mixers: "(int \<Rightarrow> device option) option")

definition quote :: string where
  "quote = [CHR 0x27]"



record parameter_record =
  r_name :: string
  r_value :: int
  r_min_value :: int
  r_max_value :: int
  r_device_type :: string
  r_device_uid :: string
  r_device_index :: int

text \<open>The dictionary that \<open>async_get_device_parameter\<close> returns for a parameter.\<close>

definition parameter_dict :: "device \<Rightarrow> string \<Rightarrow> parameter \<Rightarrow> parameter_record" where
  "parameter_dict device name parameter =
     (let ecomax = (case dev_parent device of Some p \<Rightarrow> p | None \<Rightarrow> device);
          product = dev_product ecomax;
          device_uid = (case product of Some p \<Rightarrow> product_uid p | None \<Rightarrow> ''unknown'')
      in \<lparr>r_name = name,
          r_value = param_value parameter,
          r_min_value = param_min_value parameter,
          r_max_value = param_max_value parameter,
          r_device_type = lower (class_name device),
          r_device_uid = device_uid,
          r_device_index = (case dev_index device of Some i \<Rightarrow> i + 1 | None \<Rightarrow> 0)\<rparr>)"

text \<open>
  \<open>Inr None\<close> is the \<^verbatim>\<open>None\<close> the function returns after it caught
  \<^verbatim>\<open>ParameterNotFoundError\<close> or \<^verbatim>\<open>TimeoutError\<close>; an exception of another kind is
  not caught.
\<close>

definition async_get_device_parameter ::
  "device \<Rightarrow> string \<Rightarrow> error + parameter_record option" where
  "async_get_device_parameter device name =
     (case dev_get device name of
        Inl e \<Rightarrow> if e = ParameterNotFoundError \<or> e = TimeoutError then Inr None else Inl e
      | Inr parameter \<Rightarrow> Inr (Some (parameter_dict device name parameter)))"

text \<open>The inner list comprehension: the devices are asked one after the other.\<close>

fun get_device_parameters ::
  "device list \<Rightarrow> string \<Rightarrow> error + parameter_record option list" where
  "get_device_parameters [] name = Inr []"
| "get_device_parameters (device # devices) name =
     (case async_get_device_parameter device name of
        Inl e \<Rightarrow> Inl e
      | Inr r \<Rightarrow>
          (case get_device_parameters devices name of
             Inl e \<Rightarrow> Inl e
           | Inr rs \<Rightarrow> Inr (r # rs)))"

text \<open>A dictionary is true unless it is empty; the record always has its seven keys.\<close>

definition truthy :: "parameter_record \<Rightarrow> bool" where
  "truthy p = True"

definition async_get_parameter_service ::
  "device list \<Rightarrow> string \<Rightarrow> error + parameter_record list" where
  "async_get_parameter_service devices name =
     (case get_device_parameters devices name of
        Inl e \<Rightarrow> Inl e
      | Inr results \<Rightarrow>
          (let parameters = map the (filter (\<lambda>p. p \<noteq> None) results)
           in if \<not> list_ex truthy parameters
              then Inl (HomeAssistantError
                         (''Couldn'' @ quote @ ''t get '' @ name
                            @ '' parameter, check logs for more info''))
              else Inr parameters))"

text \<open>The two kinds of outcome of \<^verbatim>\<open>device.get(name)\<close> that the claims tell apart.\<close>

definition not_found_or_timeout :: "device \<Rightarrow> string \<Rightarrow> bool" where
  "not_found_or_timeout device name =
     (dev_get device name = Inl ParameterNotFoundError \<or> dev_get device name = Inl TimeoutError)"

definition succeeded :: "device \<Rightarrow> string \<Rightarrow> bool" where
  "succeeded device name = (case dev_get device name of Inr p \<Rightarrow> True | Inl e \<Rightarrow> False)"

subsection \<open>\<^verbatim>\<open>services.py\<close>: \<open>async_schedule_day_to_dict\<close>\<close>

text \<open>
  The constants come from \<^verbatim>\<open>pyplumio.helpers.schedule\<close>, where the time format is
  hours and minutes; the set-schedule service of \<^verbatim>\<open>services.py\<close> accordingly cuts
  the seconds off its arguments (\<^verbatim>\<open>start_time[:-3]\<close>) before it hands them to the
  library. \<open>START_OF_DAY_DT\<close> is the value of
  \<^verbatim>\<open>datetime.strptime(START_OF_DAY, TIME_FORMAT)\<close>, midnight of the default date.
\<close>

definition TIME_FORMAT :: string where
  "TIME_FORMAT = ''%H:%M''"

definition START_OF_DAY :: string where
  "START_OF_DAY = ''00:00''"

definition STATE_DAY :: string where
  "STATE_DAY = ''day''"

definition STATE_NIGHT :: string where
  "STATE_NIGHT = ''night''"

definition START_OF_DAY_DT :: datetime where
  "START_OF_DAY_DT = \<lparr>year = 1900, month = 1, day = 1, hour = 0, minute = 0, second = 0\<rparr>"

definition slot_key :: "nat \<Rightarrow> string" where
  "slot_key index = strftime (add_minutes START_OF_DAY_DT (30 * index)) TIME_FORMAT"

text \<open>The dictionary comprehension: a later entry replaces an earlier one with the same
  key.\<close>

definition async_schedule_day_to_dict :: "bool list \<Rightarrow> (string \<rightharpoonup> string)" where
  "async_schedule_day_to_dict intervals =
     foldl (\<lambda>d (index, v). d(slot_key index \<mapsto> (if v then STATE_DAY else STATE_NIGHT)))
       Map.empty (enumerate 0 intervals)"

subsection \<open>\<^verbatim>\<open>__init__.py\<close>: \<open>async_dispatch_alert_events\<close>\<close>

record alert =
  code :: int
  from_dt :: datetime
  to_dt :: "datetime option"

datatype evalue = EStr string | EInt int

definition DATE_STR_FORMAT :: string where
  "DATE_STR_FORMAT = ''%Y-%m-%d %H:%M:%S''"

text \<open>
  \<open>ATTR_NAME\<close>, \<open>ATTR_DEVICE_ID\<close> and \<open>ATTR_CODE\<close> are constants of the host platform.
  Modelled from the spec: \<^verbatim>\<open>const.py\<close> is not among the sources, \<open>ATTR_FROM\<close>,
  \<open>ATTR_TO\<close>, \<open>DOMAIN\<close> and the event topic are named after the spec's from-timestamp,
  to-timestamp and fixed event topic.
\<close>

definition ATTR_NAME :: string where
  "ATTR_NAME = ''name''"

definition ATTR_DEVICE_ID :: string where
  "ATTR_DEVICE_ID = ''device_id''"

definition ATTR_CODE :: string where
  "ATTR_CODE = ''code''"

definition ATTR_FROM :: string where
  "ATTR_FROM = ''from''"

definition ATTR_TO :: string where
  "ATTR_TO = ''to''"

definition DOMAIN :: string where
  "DOMAIN = ''plum_ecomax''"

definition EVENT_PLUM_ECOMAX_ALERT :: string where
  "EVENT_PLUM_ECOMAX_ALERT = ''plum_ecomax_alert''"

definition alert_event_data :: "string \<Rightarrow> string \<Rightarrow> alert \<Rightarrow> (string \<rightharpoonup> evalue)" where
  "alert_event_data name device_id a =
     (let event_data =
            [ATTR_NAME \<mapsto> EStr name,
             ATTR_DEVICE_ID \<mapsto> EStr device_id,
             ATTR_CODE \<mapsto> EInt (code a),
             ATTR_FROM \<mapsto> EStr (strftime (from_dt a) DATE_STR_FORMAT)]
      in case to_dt a of
           None \<Rightarrow> event_data
         | Some t \<Rightarrow> event_data(ATTR_TO \<mapsto> EStr (strftime t DATE_STR_FORMAT)))"

text \<open>
  The registry \<open>dr\<close> maps an identifier pair to the id of the registered device. The
  event bus is the list of fired events, each a topic with its data; the function
  returns the bus with the new events appended.
\<close>

definition async_dispatch_alert_events ::
  "(string \<times> string \<rightharpoonup> string) \<Rightarrow> string \<Rightarrow> string \<Rightarrow> alert list \<Rightarrow>
   (string \<times> (string \<rightharpoonup> evalue)) list \<Rightarrow> (string \<times> (string \<rightharpoonup> evalue)) list" where
  "async_dispatch_alert_events dr connection_name connection_uid alerts bus =
     (case dr (DOMAIN, connection_uid) of
        None \<Rightarrow> bus
      | Some device_id \<Rightarrow>
          foldl (\<lambda>b a. b @ [(EVENT_PLUM_ECOMAX_ALERT,
                              alert_event_data connection_name device_id a)])
            bus alerts)"

subsection \<open>Notions used in the statements\<close>

text \<open>
  The capability set in the spec's words: the top-level value names, the token
  \<open>mixer_{i}_{attr}\<close> for every mixer and every attribute name it exposes, and the
  token \<open>water_heater\<close> when \<open>water_heater_temp\<close> is a top-level name.
\<close>

definition expected_tokens :: "'v device_state \<Rightarrow> string set" where
  "expected_tokens device =
     dom (device_data device) \<union>
     (\<Union>m \<in> set (mixers_of device). mixer_token (mixer_index m) ` dom (mixer_data m)) \<union>
     (if ATTR_WATER_HEATER_TEMP \<in> dom (device_data device) then {ATTR_WATER_HEATER} else {})"





text \<open>
  The layout \<open>YYYY-MM-DD HH:MM:SS\<close> in the spec's words: nineteen characters, digits
  except for the two hyphens, the space and the two colons (every digit is replaced by
  \<open>9\<close> and the result compared with the pattern). A date that \<^verbatim>\<open>datetime\<close> can
  hold is printed in that layout when its year has four digits.
\<close>

definition timestamp_layout :: "string \<Rightarrow> bool" where
  "timestamp_layout s \<longleftrightarrow>
     map (\<lambda>c. if is_digit c then CHR ''9'' else c) s = ''9999-99-99 99:99:99''"

definition four_digit_date :: "datetime \<Rightarrow> bool" where
  "four_digit_date t \<longleftrightarrow>
     1000 \<le> year t \<and> year t \<le> 9999 \<and> 1 \<le> month t \<and> month t \<le> 12 \<and>
     1 \<le> day t \<and> day t \<le> 31 \<and> hour t < 24 \<and> minute t < 60 \<and> second t < 60"

subsection \<open>Example inputs\<close>

definition entry_v1 :: config_entry where
  "entry_v1 = \<lparr>version = 1,
     data = [''model'' \<mapsto> VStr ''EM350P2-ZF'',
             ''uid'' \<mapsto> VStr ''D251PAKR3GCPZ1K8G05G0'',
             ''capabilities'' \<mapsto> VList [''fuel_burned'', ''heating_temp'']]\<rparr>"

definition entry_v6 :: config_entry where
  "entry_v6 = \<lparr>version = 6,
     data = [''model'' \<mapsto> VStr ''ecoMAX 350P2-ZF'',
             ''product_type'' \<mapsto> VInt 0,
             ''sub_devices'' \<mapsto> VList [''mixers'']]\<rparr>"

definition entry_v8 :: config_entry where
  "entry_v8 = \<lparr>version = 8, data = [''model'' \<mapsto> VStr ''ecoMAX 350P2-ZF'']\<rparr>"

definition ecomax_product :: product_info where
  "ecomax_product = \<lparr>product_type = 0, product_id = 90, product_uid = ''D251PAKR3GCPZ1K8G05G0''\<rparr>"

definition device_ok :: migration_device where
  "device_ok = \<lparr>get_ecomax = True, product_type_read = Some ecomax_product,
     sub_devices_read = Some (VList [''mixers'']), product_id_read = Some ecomax_product\<rparr>"

text \<open>A device that answers the product request and then fails to list its sub-devices
  in time.\<close>

definition device_slow :: migration_device where
  "device_slow = device_ok\<lparr>sub_devices_read := None\<rparr>"

definition example_device :: "int device_state" where
  "example_device =
     \<lparr>loaded = True,
      device_data =
        [''heating_temp'' \<mapsto> Value 61,
         ''mixers'' \<mapsto> Mixers
            [\<lparr>mixer_index = 0, mixer_data = [''target_temp'' \<mapsto> 40]\<rparr>,
             \<lparr>mixer_index = 1, mixer_data = [''current_temp'' \<mapsto> 35]\<rparr>],
         ''water_heater_temp'' \<mapsto> Value 48]\<rparr>"

definition example_mixers_swapped :: "int mixer list" where
  "example_mixers_swapped =
     [\<lparr>mixer_index = 1, mixer_data = [''current_temp'' \<mapsto> 35]\<rparr>,
      \<lparr>mixer_index = 0, mixer_data = [''target_temp'' \<mapsto> 40]\<rparr>]"

definition ecomax_params :: "string \<Rightarrow> error + parameter" where
  "ecomax_params name =
     (if name = ''heating_target_temp''
      then Inr \<lparr>param_value = 65, param_min_value = 40, param_max_value = 80\<rparr>
      else if name = ''fuel_flow_kg_h'' then Inl TimeoutError
      else Inl ParameterNotFoundError)"

definition mixer_params :: "string \<Rightarrow> error + parameter" where
  "mixer_params name =
     (if name = ''mixer_target_temp''
      then Inr \<lparr>param_value = 40, param_min_value = 30, param_max_value = 60\<rparr>
      else Inl ParameterNotFoundError)"

definition ecomax_core :: device where
  "ecomax_core = Device ''EcoMAX'' None None (Some ecomax_product) ecomax_params None"

definition mixer_0 :: device where
  "mixer_0 = Device ''Mixer'' (Some 0) (Some ecomax_core) None mixer_params None"

definition mixer_1 :: device where
  "mixer_1 = Device ''Mixer'' (Some 1) (Some ecomax_core) None mixer_params None"

definition main_device :: device where
  "main_device = Device ''EcoMAX'' None None (Some ecomax_product) ecomax_params
     (Some [0 \<mapsto> mixer_0, 1 \<mapsto> mixer_1])"


text \<open>A schedule day: night until 08:00, day until 22:00, night again.\<close>

definition night_then_day :: "bool list" where
  "night_then_day = replicate 16 False @ replicate 28 True @ replicate 4 False"

text \<open>Two alerts, the first still going on, the second concluded.\<close>

definition alert_ongoing :: alert where
  "alert_ongoing =
     \<lparr>code = 26,
      from_dt = \<lparr>year = 2023, month = 7, day = 9, hour = 6, minute = 5, second = 0\<rparr>,
      to_dt = None\<rparr>"

definition alert_concluded :: alert where
  "alert_concluded =
     \<lparr>code = 0,
      from_dt = \<lparr>year = 2023, month = 7, day = 8, hour = 22, minute = 30, second = 15\<rparr>,
      to_dt = Some \<lparr>year = 2023, month = 7, day = 8, hour = 23, minute = 45, second = 59\<rparr>\<rparr>"

definition example_device_registry :: "string \<times> string \<rightharpoonup> string" where
  "example_device_registry =
     [(''plum_ecomax'', ''D251PAKR3GCPZ1K8G05G0'') \<mapsto> ''4b2f0c3d9e'']"

section \<open>Properties\<close>

subsection \<open>The model-name rule\<close>

lemma digit_not_letter: "is_digit c \<Longrightarrow> \<not> is_letter c"
  by (auto simp: is_digit_def is_letter_def Let_def)

lemma space_not_letter: "is_space c \<Longrightarrow> \<not> is_letter c"
  by (auto simp: is_space_def is_letter_def Let_def)

lemma digit_not_space: "is_digit c \<Longrightarrow> \<not> is_space c"
  by (auto simp: is_digit_def is_space_def Let_def)

lemma newline_not_digit: "\<not> is_digit newline"
  by (simp add: is_digit_def newline_def)

lemma while_stop:
  assumes "ys = [] \<or> \<not> P (hd ys)"
  shows "takeWhile P ys = []" and "dropWhile P ys = ys"
  using assms by (cases ys; auto)+

lemma while_append:
  assumes "list_all P xs" and "ys = [] \<or> \<not> P (hd ys)"
  shows "takeWhile P (xs @ ys) = xs" and "dropWhile P (xs @ ys) = ys"
  using assms by (induction xs) (simp_all add: while_stop)

lemma digits_tail:
  assumes "e = [] \<or> e = [newline]"
  shows "takeWhile is_digit (g3 @ e) = takeWhile is_digit g3"
    and "dropWhile is_digit (g3 @ e) = dropWhile is_digit g3 @ e"
  using assms newline_not_digit by (induction g3) auto

lemma body_of_tail:
  assumes "newline \<notin> set t" and "e = [] \<or> e = [newline]"
  shows "(if t @ e \<noteq> [] \<and> last (t @ e) = newline then butlast (t @ e) else t @ e) = t"
proof (cases "t = []")
  case True
  with assms show ?thesis by auto
next
  case False
  then have "last t \<in> set t" by (rule last_in_set)
  with assms have "last t \<noteq> newline" by auto
  with False assms show ?thesis by (auto simp: butlast_append)
qed

lemma model_match_eq:
  assumes "takeWhile is_letter s = dev"
    and "dropWhile is_space (dropWhile is_letter s) = r"
    and "takeWhile is_digit r = ds"
    and "dropWhile is_digit r = tail"
    and "(if tail \<noteq> [] \<and> last tail = newline then butlast tail else tail) = body"
  shows "model_match s =
     (if dev = [] \<or> length ds < 3 \<or> newline \<in> set body then None
      else if body \<noteq> [] then Some (dev, ds, body)
      else if 3 < length ds then Some (dev, butlast ds, [last ds])
      else None)"
  unfolding model_match_def Let_def assms by (rule refl)

text \<open>Every split the pattern allows is found by the matcher, up to where the digit
  group ends.\<close>

lemma split_match:
  assumes "pattern_split s g1 ws g2 g3 e"
  shows "\<exists>n b. model_match s = Some (g1, n, b) \<and> n @ b = g2 @ g3"
proof -
  from assms have s: "s = g1 @ ws @ g2 @ g3 @ e" and g1: "g1 \<noteq> []" "list_all is_letter g1"
    and ws: "list_all is_space ws" and g2: "3 \<le> length g2" "list_all is_digit g2"
    and g3: "g3 \<noteq> []" "newline \<notin> set g3" and e: "e = [] \<or> e = [newline]"
    by (simp_all add: pattern_split_def)
  from g2 have g2ne: "g2 \<noteq> []" by auto
  with g2 have hd2: "is_digit (hd (g2 @ g3 @ e))" by (cases g2) auto
  have "\<not> is_letter (hd (ws @ g2 @ g3 @ e))"
  proof (cases ws)
    case Nil
    with hd2 show ?thesis by (simp add: digit_not_letter)
  next
    case (Cons w ws')
    with ws show ?thesis by (simp add: space_not_letter)
  qed
  with g1 have tl: "takeWhile is_letter s = g1" and dl: "dropWhile is_letter s = ws @ g2 @ g3 @ e"
    unfolding s by (simp_all add: while_append)
  from hd2 ws have ds: "dropWhile is_space (ws @ g2 @ g3 @ e) = g2 @ g3 @ e"
    by (simp add: while_append digit_not_space)
  define d where "d = takeWhile is_digit g3"
  define t where "t = dropWhile is_digit g3"
  have dt: "d @ t = g3" by (simp add: d_def t_def)
  have td: "takeWhile is_digit (g2 @ g3 @ e) = g2 @ d"
    using g2 digits_tail(1)[OF e, of g3] by (simp add: list_all_iff d_def)
  have dd: "dropWhile is_digit (g2 @ g3 @ e) = t @ e"
    using g2 digits_tail(2)[OF e, of g3] by (simp add: list_all_iff t_def)
  from g3 dt have nt: "newline \<notin> set t" by auto
  have body: "(if t @ e \<noteq> [] \<and> last (t @ e) = newline then butlast (t @ e) else t @ e) = t"
    by (rule body_of_tail[OF nt e])
  have unf: "model_match s =
     (if g1 = [] \<or> length (g2 @ d) < 3 \<or> newline \<in> set t then None
      else if t \<noteq> [] then Some (g1, g2 @ d, t)
      else if 3 < length (g2 @ d) then Some (g1, butlast (g2 @ d), [last (g2 @ d)])
      else None)"
    by (rule model_match_eq[OF tl _ td dd body]) (simp add: dl ds)
  show ?thesis
  proof (cases "t = []")
    case False
    with g1 g2 nt have "model_match s = Some (g1, g2 @ d, t)"
      unfolding unf by simp
    with dt show ?thesis by simp
  next
    case True
    with dt g3 have d3: "d = g3" "d \<noteq> []" by auto
    with g2 have len: "3 < length (g2 @ d)" by (cases d) auto
    from True g1 g2 nt len have "model_match s = Some (g1, butlast (g2 @ d), [last (g2 @ d)])"
      unfolding unf by simp
    moreover have "butlast (g2 @ d) @ [last (g2 @ d)] = g2 @ g3"
      unfolding d3(1) using g3 by (intro append_butlast_last_id) simp
    ultimately show ?thesis by blast
  qed
qed

text \<open>Whatever the matcher returns is a split the pattern allows.\<close>

lemma match_split:
  assumes "model_match s = Some (g1, n, b)"
  shows "\<exists>ws e. pattern_split s g1 ws n b e"
proof -
  define g where "g = takeWhile is_letter s"
  define r1 where "r1 = dropWhile is_letter s"
  define ws where "ws = takeWhile is_space r1"
  define r2 where "r2 = dropWhile is_space r1"
  define ds where "ds = takeWhile is_digit r2"
  define tail where "tail = dropWhile is_digit r2"
  define e where "e = (if tail \<noteq> [] \<and> last tail = newline then [newline] else [])"
  define body where "body = (if tail \<noteq> [] \<and> last tail = newline then butlast tail else tail)"
  have "g @ r1 = s" "ws @ r2 = r1" "ds @ tail = r2"
    by (simp_all add: g_def r1_def ws_def r2_def ds_def tail_def)
  moreover have "body @ e = tail"
    by (simp add: body_def e_def) (metis append_butlast_last_id)
  ultimately have s: "g @ ws @ ds @ body @ e = s" by simp
  have e: "e = [] \<or> e = [newline]" by (simp add: e_def)
  have l1: "list_all is_letter g" and l2: "list_all is_space ws"
    and l3: "list_all is_digit ds"
    by (auto simp: list_all_iff g_def ws_def ds_def dest: set_takeWhileD)
  have mm: "model_match s =
     (if g = [] \<or> length ds < 3 \<or> newline \<in> set body then None
      else if body \<noteq> [] then Some (g, ds, body)
      else if 3 < length ds then Some (g, butlast ds, [last ds])
      else None)"
    unfolding g_def r1_def r2_def ds_def tail_def body_def
    by (rule model_match_eq[OF refl refl refl refl refl])
  show ?thesis
  proof (cases "body = []")
    case False
    with assms mm have "g1 = g" "n = ds" "b = body"
      "g \<noteq> []" "3 \<le> length ds" "newline \<notin> set body"
      by (auto split: if_splits)
    with s[symmetric] e l1 l2 l3 False have "pattern_split s g1 ws n b e"
      unfolding pattern_split_def by blast
    then show ?thesis by blast
  next
    case True
    with assms mm have eqs: "g1 = g" "n = butlast ds" "b = [last ds]"
      "g \<noteq> []" "3 < length ds"
      by (auto split: if_splits)
    then have dne: "ds \<noteq> []" by auto
    then have dsplit: "n @ b = ds" unfolding eqs by (rule append_butlast_last_id)
    have "is_digit (last ds)" using l3 dne by (simp add: list_all_iff)
    then have nl: "newline \<notin> set b" unfolding eqs using newline_not_digit by auto
    have dn: "list_all is_digit n"
      unfolding eqs using l3 by (auto simp: list_all_iff dest: in_set_butlastD)
    have ln: "3 \<le> length n" unfolding eqs using eqs(5) by simp
    have "g @ ws @ (n @ b) @ e = s" unfolding dsplit using s True by simp
    then have "s = g1 @ ws @ n @ b @ e" unfolding eqs(1) by simp
    moreover have "b \<noteq> []" unfolding eqs by simp
    moreover have "g1 \<noteq> []" "list_all is_letter g1" unfolding eqs(1) using eqs(4) l1 by auto
    ultimately have "pattern_split s g1 ws n b e"
      unfolding pattern_split_def using e l2 nl dn ln by blast
    then show ?thesis by blast
  qed
qed

lemma no_match_no_split:
  assumes "model_match s = None"
  shows "\<not> pattern_split s g1 ws g2 g3 e"
  using split_match[of s g1 ws g2 g3 e] assms by auto

text \<open>
  Claim C4, as the code has it. For every string that the pattern splits into letters
  \<open>g1\<close>, white space, digits \<open>g2\<close> and a rest \<open>g3\<close>, \<open>format_model_name\<close> returns the
  letters, one space, the digits and the rest, the letters being replaced by \<open>ecoMAX\<close>
  exactly when they are the upper-case token \<open>EM\<close>; a final newline is dropped. Every
  string that the pattern does not split is returned unchanged. In particular
  \<open>EM350P2-ZF\<close> becomes \<open>ecoMAX 350P2-ZF\<close> and \<open>unknown\<close> stays.
\<close>

theorem format_model_name_rule:
  "(pattern_split s g1 ws g2 g3 e \<longrightarrow>
      format_model_name s = (if g1 = ''EM'' then ''ecoMAX'' else g1) @ '' '' @ g2 @ g3) \<and>
   ((\<forall>g1 ws g2 g3 e. \<not> pattern_split s g1 ws g2 g3 e) \<longrightarrow> format_model_name s = s) \<and>
   format_model_name ''EM350P2-ZF'' = ''ecoMAX 350P2-ZF'' \<and>
   format_model_name ''unknown'' = ''unknown''"
proof (intro conjI impI)
  assume "pattern_split s g1 ws g2 g3 e"
  from split_match[OF this] obtain n b where "model_match s = Some (g1, n, b)" "n @ b = g2 @ g3"
    by blast
  then show "format_model_name s = (if g1 = ''EM'' then ''ecoMAX'' else g1) @ '' '' @ g2 @ g3"
    by (simp add: format_model_name_def)
next
  assume none: "\<forall>g1 ws g2 g3 e. \<not> pattern_split s g1 ws g2 g3 e"
  have "model_match s = None"
  proof (cases "model_match s")
    case (Some p)
    then obtain a n b where "model_match s = Some (a, n, b)" by (cases p) auto
    from match_split[OF this] none show ?thesis by blast
  qed simp
  then show "format_model_name s = s" by (simp add: format_model_name_def)
next
  show "format_model_name ''EM350P2-ZF'' = ''ecoMAX 350P2-ZF''" by code_simp
  show "format_model_name ''unknown'' = ''unknown''" by code_simp
qed

theorem format_model_name_rule_witness:
  "pattern_split ''EM350P2-ZF'' ''EM'' [] ''350'' ''P2-ZF'' [] \<and>
   format_model_name ''EM350P2-ZF'' = ''ecoMAX 350P2-ZF'' \<and>
   pattern_split ''ecoMAX  860D3-HB'' ''ecoMAX'' ''  '' ''860'' ''D3-HB'' [] \<and>
   format_model_name ''ecoMAX  860D3-HB'' = ''ecoMAX 860D3-HB'' \<and>
   (\<forall>g1 ws g2 g3 e. \<not> pattern_split ''unknown'' g1 ws g2 g3 e) \<and>
   format_model_name ''unknown'' = ''unknown''"
proof -
  have a: "pattern_split ''EM350P2-ZF'' ''EM'' [] ''350'' ''P2-ZF'' []"
    by (simp add: pattern_split_def is_letter_def is_digit_def newline_def)
  have b: "pattern_split ''ecoMAX  860D3-HB'' ''ecoMAX'' ''  '' ''860'' ''D3-HB'' []"
    by (simp add: pattern_split_def is_letter_def is_digit_def is_space_def newline_def)
  have "model_match ''unknown'' = None" by code_simp
  then have c: "\<forall>g1 ws g2 g3 e. \<not> pattern_split ''unknown'' g1 ws g2 g3 e"
    by (simp add: no_match_no_split)
  show ?thesis
    using a b c
      format_model_name_rule[of "''EM350P2-ZF''" "''EM''" "[]" "''350''" "''P2-ZF''" "[]"]
      format_model_name_rule[of "''ecoMAX  860D3-HB''" "''ecoMAX''" "''  ''" "''860''" "''D3-HB''" "[]"]
      format_model_name_rule[of "''unknown''"]
    by simp
qed

text \<open>
  Claim C4, as stated, fails on a lower-case prefix: the pattern matches \<open>em350P2-ZF\<close>
  without regard to case, but the token is compared with \<open>EM\<close> as it is, so the prefix
  is kept and only the space is inserted.
\<close>

theorem format_model_name_lowercase_counterexample:
  "format_model_name ''em350P2-ZF'' = ''em 350P2-ZF'' \<and>
   format_model_name ''em350P2-ZF'' \<noteq> ''ecoMAX 350P2-ZF''"
  by code_simp

subsection \<open>The migration\<close>

lemmas conf_defs = CONF_MODEL_def CONF_PRODUCT_TYPE_def CONF_PRODUCT_ID_def
  CONF_CAPABILITIES_def CONF_SUB_DEVICES_def

lemmas step_defs = migration_body_def then_step_def set_version_def step_get_device_def
  step_product_type_def step_model_def step_sub_devices_def step_product_id_def

lemmas example_defs = entry_v1_def entry_v6_def entry_v8_def ecomax_product_def
  device_ok_def device_slow_def

text \<open>A run that reports failure has not stored anything into the entry's data.\<close>

lemma migrate_failure_keeps_data:
  "async_migrate_entry dev entry = (Inr False, entry') \<Longrightarrow> data entry' = data entry"
  by (auto simp: async_migrate_entry_def step_defs Let_def
      split: if_splits option.splits cvalue.splits sum.splits)

text \<open>A timeout of the first query a run makes leaves the version where it was.\<close>

lemma migrate_first_query_timeout:
  "\<not> get_ecomax dev \<Longrightarrow> async_migrate_entry dev entry = (Inr False, entry)"
  "get_ecomax dev \<Longrightarrow> version entry = 1 \<or> version entry = 2 \<Longrightarrow> product_type_read dev = None \<Longrightarrow>
     async_migrate_entry dev entry = (Inr False, entry)"
  by (auto simp: async_migrate_entry_def step_defs)

text \<open>
  Claim C1 at a failing input. The entry is at version 1, the device answers the fetch
  and the product request and then times out on the sub-device query. The run returns
  \<open>False\<close> and the data are untouched, but the entry's version has been assigned twice
  on the way and is left at 4.
\<close>

theorem migrate_timeout_leaves_version_advanced:
  "version entry_v1 = 1 \<and>
   async_migrate_entry device_slow entry_v1 = (Inr False, entry_v1\<lparr>version := 4\<rparr>)"
  by (simp add: async_migrate_entry_def step_defs conf_defs example_defs)

text \<open>
  What the advanced version costs: the next run on that entry, with a device that
  answers everything, skips the first two transitions and completes at version 7
  without a product type and with the model name as it was.
\<close>

lemma migrate_retry_after_timeout:
  "async_migrate_entry device_ok (snd (async_migrate_entry device_slow entry_v1)) =
     (Inr True,
      \<lparr>version = 7,
       data = [''model'' \<mapsto> VStr ''EM350P2-ZF'',
               ''uid'' \<mapsto> VStr ''D251PAKR3GCPZ1K8G05G0'',
               ''sub_devices'' \<mapsto> VList [''mixers''],
               ''product_id'' \<mapsto> VInt 90]\<rparr>)"
  by (simp add: async_migrate_entry_def step_defs conf_defs example_defs fun_upd_twist)

text \<open>
  Claim C2, as the code has it. For an entry whose version is none of 1 to 6, no
  transition applies: the run stores the unchanged data back, leaves the version as it
  is and returns \<open>True\<close> when the device fetch succeeds, \<open>False\<close> when it times out.
  No error is raised for the version.
\<close>

theorem migrate_unhandled_version:
  "version entry \<notin> {1, 2, 3, 4, 5, 6} \<Longrightarrow>
     async_migrate_entry dev entry = (Inr (get_ecomax dev), entry)"
  by (simp add: async_migrate_entry_def step_defs)

theorem migrate_unhandled_version_witness:
  "version entry_v8 \<notin> {1, 2, 3, 4, 5, 6} \<and>
   async_migrate_entry device_ok entry_v8 = (Inr True, entry_v8)"
proof -
  have v: "version entry_v8 \<notin> {1, 2, 3, 4, 5, 6}" by (simp add: entry_v8_def)
  from migrate_unhandled_version[OF v, of device_ok] v show ?thesis
    by (simp add: device_ok_def)
qed

text \<open>
  Claim C2, as stated, fails at version 8 (and in the same way at version 0): the run
  reports success instead of an unsupported-migration error.
\<close>

theorem migrate_version_8_counterexample:
  "version entry_v8 = 8 \<and>
   fst (async_migrate_entry device_ok entry_v8) = Inr True \<and>
   fst (async_migrate_entry device_ok (entry_v8\<lparr>version := 0\<rparr>)) = Inr True"
  by (simp add: async_migrate_entry_def step_defs example_defs)

text \<open>
  Claim C3. An entry at version 1 whose data hold a model string, run against a device
  that answers every query, ends at version 7 with the product type stored, the model
  name passed through \<open>format_model_name\<close>, the capabilities key removed, the
  sub-devices stored and the product id stored. An entry at version 6 ends at version
  7 with the product id stored and every other key as it was.
\<close>

theorem migrate_from_1_and_from_6:
  "(version entry = 1 \<and> get_ecomax dev \<and> product_type_read dev = Some p1 \<and>
    data entry CONF_MODEL = Some (VStr m) \<and> sub_devices_read dev = Some sd \<and>
    product_id_read dev = Some p2 \<longrightarrow>
      async_migrate_entry dev entry =
        (Inr True,
         entry\<lparr>version := 7,
               data := (data entry)
                 (CONF_PRODUCT_TYPE \<mapsto> VInt (product_type p1),
                  CONF_MODEL \<mapsto> VStr (format_model_name m),
                  CONF_CAPABILITIES := None,
                  CONF_SUB_DEVICES \<mapsto> sd,
                  CONF_PRODUCT_ID \<mapsto> VInt (product_id p2))\<rparr>)) \<and>
   (version entry = 6 \<and> get_ecomax dev \<and> product_id_read dev = Some p2 \<longrightarrow>
      async_migrate_entry dev entry =
        (Inr True,
         entry\<lparr>version := 7, data := (data entry)(CONF_PRODUCT_ID \<mapsto> VInt (product_id p2))\<rparr>))"
  by (simp add: async_migrate_entry_def step_defs conf_defs)

theorem migrate_from_1_and_from_6_witness:
  "version entry_v1 = 1 \<and> get_ecomax device_ok \<and>
   product_type_read device_ok = Some ecomax_product \<and>
   data entry_v1 CONF_MODEL = Some (VStr ''EM350P2-ZF'') \<and>
   sub_devices_read device_ok = Some (VList [''mixers'']) \<and>
   product_id_read device_ok = Some ecomax_product \<and>
   async_migrate_entry device_ok entry_v1 =
     (Inr True,
      \<lparr>version = 7,
       data = [''uid'' \<mapsto> VStr ''D251PAKR3GCPZ1K8G05G0'',
               ''product_type'' \<mapsto> VInt 0,
               ''model'' \<mapsto> VStr ''ecoMAX 350P2-ZF'',
               ''sub_devices'' \<mapsto> VList [''mixers''],
               ''product_id'' \<mapsto> VInt 90]\<rparr>) \<and>
   version entry_v6 = 6 \<and>
   async_migrate_entry device_ok entry_v6 =
     (Inr True,
      \<lparr>version = 7,
       data = [''model'' \<mapsto> VStr ''ecoMAX 350P2-ZF'',
               ''product_type'' \<mapsto> VInt 0,
               ''sub_devices'' \<mapsto> VList [''mixers''],
               ''product_id'' \<mapsto> VInt 90]\<rparr>)"
proof -
  have f: "format_model_name ''EM350P2-ZF'' = ''ecoMAX 350P2-ZF''" by code_simp
  have h1: "version entry_v1 = 1 \<and> get_ecomax device_ok \<and>
    product_type_read device_ok = Some ecomax_product \<and>
    data entry_v1 CONF_MODEL = Some (VStr ''EM350P2-ZF'') \<and>
    sub_devices_read device_ok = Some (VList [''mixers'']) \<and>
    product_id_read device_ok = Some ecomax_product"
    by (simp add: entry_v1_def device_ok_def conf_defs)
  have h6: "version entry_v6 = 6 \<and> get_ecomax device_ok \<and>
    product_id_read device_ok = Some ecomax_product"
    by (simp add: entry_v6_def device_ok_def)
  from migrate_from_1_and_from_6[of entry_v1 device_ok ecomax_product "''EM350P2-ZF''"
      "VList [''mixers'']" ecomax_product] h1
  have r1: "async_migrate_entry device_ok entry_v1 =
     (Inr True,
      \<lparr>version = 7,
       data = [''uid'' \<mapsto> VStr ''D251PAKR3GCPZ1K8G05G0'',
               ''product_type'' \<mapsto> VInt 0,
               ''model'' \<mapsto> VStr ''ecoMAX 350P2-ZF'',
               ''sub_devices'' \<mapsto> VList [''mixers''],
               ''product_id'' \<mapsto> VInt 90]\<rparr>)"
    by (simp add: f entry_v1_def ecomax_product_def conf_defs fun_upd_twist)
  from migrate_from_1_and_from_6[of entry_v6 device_ok _ _ _ ecomax_product] h6
  have r6: "async_migrate_entry device_ok entry_v6 =
     (Inr True,
      \<lparr>version = 7,
       data = [''model'' \<mapsto> VStr ''ecoMAX 350P2-ZF'',
               ''product_type'' \<mapsto> VInt 0,
               ''sub_devices'' \<mapsto> VList [''mixers''],
               ''product_id'' \<mapsto> VInt 90]\<rparr>)"
    by (simp add: entry_v6_def ecomax_product_def conf_defs)
  from h1 h6 r1 r6 show ?thesis by simp
qed

subsection \<open>Capability discovery\<close>

lemma of_char_digit_char: "d < 10 \<Longrightarrow> (of_char (digit_char d) :: nat) = 48 + d"
  by (simp add: digit_char_def)

lemma is_digit_digit_char: "d < 10 \<Longrightarrow> is_digit (digit_char d)"
  by (simp add: is_digit_def of_char_digit_char)

lemma digit_val_digit_char: "d < 10 \<Longrightarrow> digit_val (digit_char d) = d"
  by (simp add: digit_val_def of_char_digit_char)

lemma str_nat_digits: "list_all is_digit (str_nat n)"
proof (induction n rule: str_nat.induct)
  case (1 n)
  show ?case
  proof (cases "n < 10")
    case True
    then show ?thesis by (simp add: str_nat.simps[of n] is_digit_digit_char)
  next
    case False
    with 1 show ?thesis by (simp add: str_nat.simps[of n] is_digit_digit_char)
  qed
qed

lemma str_nat_nonempty: "str_nat n \<noteq> []"
  by (simp add: str_nat.simps[of n])

lemma digits_value_str_nat: "digits_value (str_nat n) = n"
proof (induction n rule: str_nat.induct)
  case (1 n)
  show ?case
  proof (cases "n < 10")
    case True
    then show ?thesis
      by (simp add: str_nat.simps[of n] digits_value_def is_digit_digit_char digit_val_digit_char)
  next
    case False
    with 1 have "digits_value (str_nat (n div 10)) = n div 10" by simp
    with False show ?thesis
      by (simp add: str_nat.simps[of n] digits_value_def is_digit_digit_char digit_val_digit_char)
  qed
qed

lemma str_nat_inj: "str_nat m = str_nat n \<Longrightarrow> m = n"
  by (metis digits_value_str_nat)

lemma minus_not_digit: "\<not> is_digit CHR ''-''"
  by (simp add: is_digit_def)

lemma underscore_not_digit: "\<not> is_digit CHR ''_''"
  by (simp add: is_digit_def)

lemma str_nat_hd_digit: "is_digit (hd (str_nat n))"
  using str_nat_digits[of n] str_nat_nonempty[of n] by (cases "str_nat n") auto

lemma str_int_inj: "str_int i = str_int j \<Longrightarrow> i = j"
proof -
  assume eq: "str_int i = str_int j"
  have ne: "CHR ''-'' # str_nat a \<noteq> str_nat b" for a b
    using str_nat_hd_digit[of b] minus_not_digit by (cases "str_nat b") auto
  show ?thesis
  proof (cases "i < 0"; cases "j < 0")
    assume "i < 0" "j < 0"
    with eq have "nat (- i) = nat (- j)" by (simp add: str_int_def str_nat_inj)
    with \<open>i < 0\<close> \<open>j < 0\<close> show ?thesis by simp
  next
    assume "i < 0" "\<not> j < 0"
    with eq ne show ?thesis by (simp add: str_int_def)
  next
    assume "\<not> i < 0" "j < 0"
    with eq ne[of "nat (- j)" "nat i"] show ?thesis by (simp add: str_int_def)
  next
    assume "\<not> i < 0" "\<not> j < 0"
    with eq have "nat i = nat j" by (simp add: str_int_def str_nat_inj)
    with \<open>\<not> i < 0\<close> \<open>\<not> j < 0\<close> show ?thesis by simp
  qed
qed

lemma str_int_no_underscore: "CHR ''_'' \<notin> set (str_int i)"
  using str_nat_digits underscore_not_digit
  by (auto simp: str_int_def list_all_iff)

lemma mixer_token_inj:
  assumes "mixer_token i x = mixer_token j y"
  shows "i = j \<and> x = y"
proof -
  from assms have eq: "str_int i @ CHR ''_'' # x = str_int j @ CHR ''_'' # y"
    by (simp add: mixer_token_def)
  have tw: "takeWhile (\<lambda>c. c \<noteq> CHR ''_'') (str_int k @ CHR ''_'' # z) = str_int k" for k z
    using str_int_no_underscore[of k] by (fastforce simp: takeWhile_tail)
  from eq have "str_int i = str_int j" using tw[of i x] tw[of j y] by simp
  then have "i = j" by (rule str_int_inj)
  with eq show ?thesis by simp
qed

lemma mixer_token_not_top:
  "mixer_token i x \<noteq> ATTR_WATER_HEATER_TEMP" "mixer_token i x \<noteq> ATTR_WATER_HEATER"
  by (simp_all add: mixer_token_def ATTR_WATER_HEATER_TEMP_def ATTR_WATER_HEATER_def)

lemma foldl_tokens:
  "foldl (\<lambda>caps m. caps \<union> mixer_tokens m) A ms = A \<union> (\<Union>m\<in>set ms. mixer_tokens m)"
  by (induction ms arbitrary: A) auto

lemma capabilities_eq:
  assumes "loaded device" "mixers_iterable device"
  shows "async_get_device_capabilities device = Inr (expected_tokens device)"
proof -
  have un: "(\<Union>m\<in>set ms. mixer_tokens m) =
      (\<Union>m\<in>set ms. mixer_token (mixer_index m) ` dom (mixer_data m))" for ms :: "'a mixer list"
    by (simp add: mixer_tokens_def)
  have wh: "ATTR_WATER_HEATER_TEMP \<in> A \<union> (\<Union>m\<in>set ms. mixer_tokens m) \<longleftrightarrow> ATTR_WATER_HEATER_TEMP \<in> A"
    for A and ms :: "'a mixer list"
  proof -
    have "ATTR_WATER_HEATER_TEMP \<notin> mixer_tokens m" for m :: "'a mixer"
      by (auto simp: mixer_tokens_def mixer_token_def ATTR_WATER_HEATER_TEMP_def)
    then show ?thesis by blast
  qed
  show ?thesis
  proof (cases "device_data device ATTR_MIXERS")
    case None
    then have "ATTR_MIXERS \<notin> dom (device_data device)" by auto
    with assms None show ?thesis
      by (simp add: async_get_device_capabilities_def mixers_of_def Let_def expected_tokens_def)
  next
    case (Some v)
    with assms obtain ms where ms: "device_data device ATTR_MIXERS = Some (Mixers ms)"
      by (cases v) (auto simp: mixers_iterable_def)
    then have in_dom: "ATTR_MIXERS \<in> dom (device_data device)" by auto
    define A where "A = dom (device_data device)"
    define T where "T = (\<Union>m\<in>set ms. mixer_tokens m)"
    have "async_get_device_capabilities device =
        Inr (if ATTR_WATER_HEATER_TEMP \<in> A \<union> T then insert ATTR_WATER_HEATER (A \<union> T) else A \<union> T)"
      using assms(1) ms in_dom
      by (simp add: async_get_device_capabilities_def Let_def foldl_tokens A_def T_def)
    also have "(if ATTR_WATER_HEATER_TEMP \<in> A \<union> T then insert ATTR_WATER_HEATER (A \<union> T) else A \<union> T) =
        A \<union> T \<union> (if ATTR_WATER_HEATER_TEMP \<in> A then {ATTR_WATER_HEATER} else {})"
      unfolding T_def wh by auto
    also have "\<dots> = expected_tokens device"
      unfolding expected_tokens_def T_def un A_def using ms by (simp add: mixers_of_def)
    finally show ?thesis .
  qed
qed

lemma capabilities_Inr:
  assumes "async_get_device_capabilities device = Inr caps"
  shows "loaded device" and "mixers_iterable device"
  using assms
  by (auto simp: async_get_device_capabilities_def mixers_iterable_def Let_def
      split: if_splits option.splits dvalue.splits)

text \<open>
  Claim C5. When the loaded signal resolves and the mixers value can be iterated, the
  discovery returns exactly the top-level names, the mixer tokens of the mixers present
  and the attributes they expose, and \<open>water_heater\<close> when \<open>water_heater_temp\<close> is a
  top-level name. Hence a mixer token that is not itself a top-level name is in the set
  exactly when a mixer of that index exposes that attribute, and \<open>water_heater\<close>, when
  not a top-level name, exactly when \<open>water_heater_temp\<close> is one. The result is a
  function of the snapshot and does not change when the mixers are listed in another
  order.
\<close>

theorem capabilities_exact:
  "(loaded device \<and> mixers_iterable device \<longrightarrow>
      async_get_device_capabilities device =
        Inr (dom (device_data device) \<union>
             (\<Union>m \<in> set (mixers_of device).
                mixer_token (mixer_index m) ` dom (mixer_data m)) \<union>
             (if ATTR_WATER_HEATER_TEMP \<in> dom (device_data device)
              then {ATTR_WATER_HEATER} else {}))) \<and>
   (async_get_device_capabilities device = Inr caps \<and>
    mixer_token i x \<notin> dom (device_data device) \<longrightarrow>
      (mixer_token i x \<in> caps \<longleftrightarrow>
         (\<exists>m \<in> set (mixers_of device). mixer_index m = i \<and> x \<in> dom (mixer_data m)))) \<and>
   (async_get_device_capabilities device = Inr caps \<and>
    ATTR_WATER_HEATER \<notin> dom (device_data device) \<longrightarrow>
      (ATTR_WATER_HEATER \<in> caps \<longleftrightarrow> ATTR_WATER_HEATER_TEMP \<in> dom (device_data device))) \<and>
   (device_data device ATTR_MIXERS = Some (Mixers ms) \<and> set ms' = set ms \<longrightarrow>
      async_get_device_capabilities
        (device\<lparr>device_data := (device_data device)(ATTR_MIXERS \<mapsto> Mixers ms')\<rparr>) =
      async_get_device_capabilities device)"
proof (intro conjI impI)
  assume "loaded device \<and> mixers_iterable device"
  then show "async_get_device_capabilities device =
        Inr (dom (device_data device) \<union>
             (\<Union>m \<in> set (mixers_of device).
                mixer_token (mixer_index m) ` dom (mixer_data m)) \<union>
             (if ATTR_WATER_HEATER_TEMP \<in> dom (device_data device)
              then {ATTR_WATER_HEATER} else {}))"
    using capabilities_eq[of device] by (simp add: expected_tokens_def)
next
  assume a: "async_get_device_capabilities device = Inr caps \<and>
    mixer_token i x \<notin> dom (device_data device)"
  then have "caps = expected_tokens device"
    using capabilities_eq[of device] capabilities_Inr[of device caps] by simp
  with a show "mixer_token i x \<in> caps \<longleftrightarrow>
         (\<exists>m \<in> set (mixers_of device). mixer_index m = i \<and> x \<in> dom (mixer_data m))"
    using mixer_token_not_top(2)[of i x]
    by (auto simp: expected_tokens_def dest: mixer_token_inj)
next
  assume a: "async_get_device_capabilities device = Inr caps \<and>
    ATTR_WATER_HEATER \<notin> dom (device_data device)"
  then have "caps = expected_tokens device"
    using capabilities_eq[of device] capabilities_Inr[of device caps] by simp
  with a show "ATTR_WATER_HEATER \<in> caps \<longleftrightarrow> ATTR_WATER_HEATER_TEMP \<in> dom (device_data device)"
    using mixer_token_not_top(2)
    by (auto simp: expected_tokens_def dest: sym)
next
  assume a: "device_data device ATTR_MIXERS = Some (Mixers ms) \<and> set ms' = set ms"
  define device' where
    "device' = device\<lparr>device_data := (device_data device)(ATTR_MIXERS \<mapsto> Mixers ms')\<rparr>"
  show "async_get_device_capabilities
        (device\<lparr>device_data := (device_data device)(ATTR_MIXERS \<mapsto> Mixers ms')\<rparr>) =
      async_get_device_capabilities device"
  proof (cases "loaded device")
    case False
    then show ?thesis by (simp add: async_get_device_capabilities_def)
  next
    case True
    from a have it: "mixers_iterable device" "mixers_iterable device'"
      by (simp_all add: mixers_iterable_def device'_def)
    from a have d: "dom (device_data device') = dom (device_data device)"
      by (auto simp: device'_def)
    from a have m: "set (mixers_of device') = set (mixers_of device)"
      by (simp add: mixers_of_def device'_def)
    from True have "loaded device'" by (simp add: device'_def)
    with it have "async_get_device_capabilities device' = Inr (expected_tokens device')"
      by (simp add: capabilities_eq)
    also have "expected_tokens device' = expected_tokens device"
      by (simp add: expected_tokens_def d m)
    also have "Inr (expected_tokens device) = async_get_device_capabilities device"
      using True it by (simp add: capabilities_eq)
    finally show ?thesis by (simp add: device'_def)
  qed
qed

lemma str_int_small: "str_int 0 = ''0''" "str_int 1 = ''1''" "str_int 2 = ''2''"
  by code_simp+

theorem capabilities_exact_witness:
  "loaded example_device \<and> mixers_iterable example_device \<and>
   async_get_device_capabilities example_device =
     Inr {''heating_temp'', ''mixers'', ''water_heater_temp'', ''mixer_0_target_temp'',
          ''mixer_1_current_temp'', ''water_heater''} \<and>
   async_get_device_capabilities
     (example_device\<lparr>device_data :=
        (device_data example_device)(ATTR_MIXERS \<mapsto> Mixers example_mixers_swapped)\<rparr>) =
   async_get_device_capabilities example_device"
proof -
  have h: "loaded example_device \<and> mixers_iterable example_device"
    by (simp add: example_device_def mixers_iterable_def ATTR_MIXERS_def)
  have ms: "device_data example_device ATTR_MIXERS = Some (Mixers (rev example_mixers_swapped)) \<and>
      set example_mixers_swapped = set (rev example_mixers_swapped)"
    by (auto simp: example_device_def example_mixers_swapped_def ATTR_MIXERS_def)
  have "async_get_device_capabilities example_device =
     Inr {''heating_temp'', ''mixers'', ''water_heater_temp'', ''mixer_0_target_temp'',
          ''mixer_1_current_temp'', ''water_heater''}"
  proof -
    have "dom (device_data example_device) \<union>
             (\<Union>m \<in> set (mixers_of example_device).
                mixer_token (mixer_index m) ` dom (mixer_data m)) \<union>
             (if ATTR_WATER_HEATER_TEMP \<in> dom (device_data example_device)
              then {ATTR_WATER_HEATER} else {}) =
         {''heating_temp'', ''mixers'', ''water_heater_temp'', ''mixer_0_target_temp'',
          ''mixer_1_current_temp'', ''water_heater''}"
      by (simp add: example_device_def mixers_of_def ATTR_MIXERS_def ATTR_WATER_HEATER_def
        ATTR_WATER_HEATER_TEMP_def mixer_token_def str_int_small insert_commute)
    with h capabilities_exact[of example_device] show ?thesis by simp
  qed
  moreover have "async_get_device_capabilities
     (example_device\<lparr>device_data :=
        (device_data example_device)(ATTR_MIXERS \<mapsto> Mixers example_mixers_swapped)\<rparr>) =
   async_get_device_capabilities example_device"
    using ms capabilities_exact[of example_device _ _ _ "rev example_mixers_swapped" example_mixers_swapped]
    by blast
  ultimately show ?thesis using h by blast
qed

subsection \<open>Target resolution\<close>































text \<open>The separators U+001C to U+001F are not white space for the conversion.\<close>

lemma py_int_separator: "py_int [CHR 0x1C, CHR ''1''] = Inl ValueError"
  by code_simp




subsection \<open>The get-parameter service\<close>

lemma device_parameter_cases:
  "not_found_or_timeout d name \<Longrightarrow> async_get_device_parameter d name = Inr None"
  "succeeded d name \<Longrightarrow>
     async_get_device_parameter d name = Inr (Some (parameter_dict d name (projr (dev_get d name))))"
  by (auto simp: not_found_or_timeout_def succeeded_def async_get_device_parameter_def
      split: sum.splits)

lemma not_both: "not_found_or_timeout d name \<Longrightarrow> \<not> succeeded d name"
  by (auto simp: not_found_or_timeout_def succeeded_def)

lemma device_parameter_Inr:
  assumes "async_get_device_parameter d name = Inr r"
  shows "not_found_or_timeout d name \<or> succeeded d name"
  using assms
  by (auto simp: not_found_or_timeout_def succeeded_def async_get_device_parameter_def
      split: sum.splits if_splits)

lemma get_device_parameters_ok:
  assumes "\<forall>d \<in> set devices. not_found_or_timeout d name \<or> succeeded d name"
  shows "get_device_parameters devices name =
     Inr (map (\<lambda>d. if succeeded d name
                   then Some (parameter_dict d name (projr (dev_get d name))) else None) devices)"
  using assms
proof (induction devices)
  case Nil
  then show ?case by simp
next
  case (Cons d ds)
  then show ?case
    by (auto simp: device_parameter_cases dest: not_both)
qed

lemma get_device_parameters_Inr:
  assumes "get_device_parameters devices name = Inr results"
  shows "\<forall>d \<in> set devices. not_found_or_timeout d name \<or> succeeded d name"
  using assms
proof (induction devices arbitrary: results)
  case Nil
  then show ?case by simp
next
  case (Cons d ds)
  then show ?case
    by (auto split: sum.splits dest: device_parameter_Inr)
qed

lemma successful_records:
  "map the (filter (\<lambda>p. p \<noteq> None)
       (map (\<lambda>d. if succeeded d name then Some (f d) else None) devices)) =
   map f (filter (\<lambda>d. succeeded d name) devices)"
  by (induction devices) auto

lemma service_ok:
  assumes "\<forall>d \<in> set devices. not_found_or_timeout d name \<or> succeeded d name"
  shows "async_get_parameter_service devices name =
      (if \<forall>d \<in> set devices. not_found_or_timeout d name
       then Inl (HomeAssistantError
                  (''Couldn'' @ quote @ ''t get '' @ name @ '' parameter, check logs for more info''))
       else Inr (map (\<lambda>d. parameter_dict d name (projr (dev_get d name)))
                   (filter (\<lambda>d. succeeded d name) devices)))"
proof -
  have "(\<forall>d \<in> set devices. not_found_or_timeout d name) \<longleftrightarrow>
      filter (\<lambda>d. succeeded d name) devices = []"
    using assms by (auto simp: filter_empty_conv dest: not_both)
  moreover have "async_get_parameter_service devices name =
      (let parameters = map (\<lambda>d. parameter_dict d name (projr (dev_get d name)))
                          (filter (\<lambda>d. succeeded d name) devices)
       in if \<not> list_ex truthy parameters
          then Inl (HomeAssistantError
                  (''Couldn'' @ quote @ ''t get '' @ name @ '' parameter, check logs for more info''))
          else Inr parameters)"
    by (simp only: async_get_parameter_service_def get_device_parameters_ok[OF assms]
        sum.case successful_records)
  ultimately show ?thesis
    by (simp add: truthy_def list_ex_iff Let_def)
qed

text \<open>
  Claim C7. A device whose \<open>get\<close> raises \<open>ParameterNotFoundError\<close> or \<open>TimeoutError\<close>
  yields \<open>None\<close>, no exception. Over any list of devices each of which either does
  that or returns a parameter, the service raises \<open>HomeAssistantError\<close> exactly when
  no device returned a parameter, and otherwise returns the dictionaries of the devices
  that did, in their order.
\<close>

theorem get_parameter_fan_out:
  "(not_found_or_timeout d name \<longrightarrow> async_get_device_parameter d name = Inr None) \<and>
   ((\<forall>d \<in> set devices. not_found_or_timeout d name \<or> succeeded d name) \<longrightarrow>
      async_get_parameter_service devices name =
        (if \<forall>d \<in> set devices. not_found_or_timeout d name
         then Inl (HomeAssistantError
                    (''Couldn'' @ quote @ ''t get '' @ name
                       @ '' parameter, check logs for more info''))
         else Inr (map (\<lambda>d. parameter_dict d name (projr (dev_get d name)))
                     (filter (\<lambda>d. succeeded d name) devices))))"
  using service_ok[of devices name] by (simp add: device_parameter_cases)

text \<open>
  Claim C10. The \<open>device_index\<close> of a returned dictionary is the device's \<open>index\<close>
  plus one when the device has that attribute, and 0 when it has not; this holds for
  each dictionary the service returns.
\<close>

theorem device_index_one_based:
  "(async_get_device_parameter d name = Inr (Some r) \<longrightarrow>
      r_device_index r = (case dev_index d of Some i \<Rightarrow> i + 1 | None \<Rightarrow> 0)) \<and>
   (async_get_parameter_service devices name = Inr rs \<longrightarrow>
      map r_device_index rs =
        map (\<lambda>d. case dev_index d of Some i \<Rightarrow> i + 1 | None \<Rightarrow> 0)
          (filter (\<lambda>d. succeeded d name) devices))"
proof (intro conjI impI)
  assume "async_get_device_parameter d name = Inr (Some r)"
  then show "r_device_index r = (case dev_index d of Some i \<Rightarrow> i + 1 | None \<Rightarrow> 0)"
    by (auto simp: async_get_device_parameter_def parameter_dict_def Let_def
        split: sum.splits if_splits)
next
  assume a: "async_get_parameter_service devices name = Inr rs"
  then obtain results where "get_device_parameters devices name = Inr results"
    by (auto simp: async_get_parameter_service_def split: sum.splits)
  then have "\<forall>d \<in> set devices. not_found_or_timeout d name \<or> succeeded d name"
    by (rule get_device_parameters_Inr)
  from service_ok[OF this] a
  have "rs = map (\<lambda>d. parameter_dict d name (projr (dev_get d name)))
                   (filter (\<lambda>d. succeeded d name) devices)"
    by (auto split: if_splits)
  then show "map r_device_index rs =
        map (\<lambda>d. case dev_index d of Some i \<Rightarrow> i + 1 | None \<Rightarrow> 0)
          (filter (\<lambda>d. succeeded d name) devices)"
    by (simp add: parameter_dict_def Let_def)
qed

lemma lower_examples: "lower ''EcoMAX'' = ''ecomax''" "lower ''Mixer'' = ''mixer''"
  by code_simp+

lemma succeeded_not_caught: "succeeded d name \<Longrightarrow> \<not> not_found_or_timeout d name"
  by (auto simp: not_found_or_timeout_def succeeded_def)

lemma example_outcomes:
  "not_found_or_timeout main_device ''mixer_target_temp''"
  "succeeded mixer_0 ''mixer_target_temp''"
  "succeeded mixer_1 ''mixer_target_temp''"
  "not_found_or_timeout main_device ''fuel_flow_kg_h''"
  "not_found_or_timeout mixer_0 ''fuel_flow_kg_h''"
  "succeeded main_device ''heating_target_temp''"
  by (simp_all add: not_found_or_timeout_def succeeded_def main_device_def mixer_0_def
      mixer_1_def ecomax_params_def mixer_params_def)

theorem get_parameter_fan_out_witness:
  "async_get_device_parameter main_device ''mixer_target_temp'' = Inr None \<and>
   async_get_parameter_service [main_device, mixer_0] ''mixer_target_temp'' =
     Inr [\<lparr>r_name = ''mixer_target_temp'', r_value = 40, r_min_value = 30, r_max_value = 60,
           r_device_type = ''mixer'', r_device_uid = ''D251PAKR3GCPZ1K8G05G0'',
           r_device_index = 1\<rparr>] \<and>
   async_get_parameter_service [main_device, mixer_0] ''fuel_flow_kg_h'' =
     Inl (HomeAssistantError
           (''Couldn'' @ quote @ ''t get fuel_flow_kg_h parameter, check logs for more info''))"
proof -
  have s: "succeeded main_device ''mixer_target_temp'' = False"
    "not_found_or_timeout mixer_0 ''mixer_target_temp'' = False"
    "not_found_or_timeout mixer_1 ''mixer_target_temp'' = False"
    using example_outcomes by (simp_all add: not_both succeeded_not_caught)
  have p: "parameter_dict mixer_0 ''mixer_target_temp'' (projr (dev_get mixer_0 ''mixer_target_temp'')) =
      \<lparr>r_name = ''mixer_target_temp'', r_value = 40, r_min_value = 30, r_max_value = 60,
           r_device_type = ''mixer'', r_device_uid = ''D251PAKR3GCPZ1K8G05G0'',
           r_device_index = 1\<rparr>"
    by (simp add: parameter_dict_def mixer_0_def mixer_params_def ecomax_core_def
        ecomax_product_def lower_examples)
  from get_parameter_fan_out[of main_device "''mixer_target_temp''" "[main_device, mixer_0]"]
  have "async_get_device_parameter main_device ''mixer_target_temp'' = Inr None \<and>
   async_get_parameter_service [main_device, mixer_0] ''mixer_target_temp'' =
     Inr [\<lparr>r_name = ''mixer_target_temp'', r_value = 40, r_min_value = 30, r_max_value = 60,
           r_device_type = ''mixer'', r_device_uid = ''D251PAKR3GCPZ1K8G05G0'',
           r_device_index = 1\<rparr>]"
    by (simp add: example_outcomes s p)
  moreover from get_parameter_fan_out[of main_device "''fuel_flow_kg_h''" "[main_device, mixer_0]"]
  have "async_get_parameter_service [main_device, mixer_0] ''fuel_flow_kg_h'' =
     Inl (HomeAssistantError
           (''Couldn'' @ quote @ ''t get fuel_flow_kg_h parameter, check logs for more info''))"
    by (simp add: example_outcomes)
  ultimately show ?thesis by blast
qed

theorem device_index_one_based_witness:
  "async_get_parameter_service [main_device, mixer_0, mixer_1] ''mixer_target_temp'' =
     Inr [parameter_dict mixer_0 ''mixer_target_temp'' (projr (dev_get mixer_0 ''mixer_target_temp'')),
          parameter_dict mixer_1 ''mixer_target_temp'' (projr (dev_get mixer_1 ''mixer_target_temp''))] \<and>
   map r_device_index
     [parameter_dict mixer_0 ''mixer_target_temp'' (projr (dev_get mixer_0 ''mixer_target_temp'')),
      parameter_dict mixer_1 ''mixer_target_temp'' (projr (dev_get mixer_1 ''mixer_target_temp''))]
     = [1, 2] \<and>
   async_get_device_parameter main_device ''heating_target_temp'' =
     Inr (Some (parameter_dict main_device ''heating_target_temp''
       (projr (dev_get main_device ''heating_target_temp'')))) \<and>
   r_device_index (parameter_dict main_device ''heating_target_temp''
       (projr (dev_get main_device ''heating_target_temp''))) = 0"
proof -
  have s: "succeeded main_device ''mixer_target_temp'' = False"
    "not_found_or_timeout mixer_0 ''mixer_target_temp'' = False"
    "not_found_or_timeout mixer_1 ''mixer_target_temp'' = False"
    using example_outcomes by (simp_all add: not_both succeeded_not_caught)
  have a: "async_get_parameter_service [main_device, mixer_0, mixer_1] ''mixer_target_temp'' =
     Inr [parameter_dict mixer_0 ''mixer_target_temp'' (projr (dev_get mixer_0 ''mixer_target_temp'')),
          parameter_dict mixer_1 ''mixer_target_temp'' (projr (dev_get mixer_1 ''mixer_target_temp''))]"
    using service_ok[of "[main_device, mixer_0, mixer_1]" "''mixer_target_temp''"]
    by (simp add: example_outcomes s)
  have b: "async_get_device_parameter main_device ''heating_target_temp'' =
     Inr (Some (parameter_dict main_device ''heating_target_temp''
       (projr (dev_get main_device ''heating_target_temp''))))"
    by (simp add: device_parameter_cases example_outcomes)
  from device_index_one_based[of main_device "''heating_target_temp''"] b
  have c: "r_device_index (parameter_dict main_device ''heating_target_temp''
       (projr (dev_get main_device ''heating_target_temp''))) = 0"
    by (simp add: main_device_def)
  define rs where "rs =
    [parameter_dict mixer_0 ''mixer_target_temp'' (projr (dev_get mixer_0 ''mixer_target_temp'')),
     parameter_dict mixer_1 ''mixer_target_temp'' (projr (dev_get mixer_1 ''mixer_target_temp''))]"
  from device_index_one_based[of main_device "''mixer_target_temp''" _
      "[main_device, mixer_0, mixer_1]" rs] a
  have "map r_device_index rs =
      map (\<lambda>d. case dev_index d of Some i \<Rightarrow> i + 1 | None \<Rightarrow> 0)
        (filter (\<lambda>d. succeeded d ''mixer_target_temp'') [main_device, mixer_0, mixer_1])"
    unfolding rs_def by blast
  also have "\<dots> = [1, 2]"
    by (simp add: example_outcomes s) (simp add: mixer_0_def mixer_1_def)
  finally have d: "map r_device_index
     [parameter_dict mixer_0 ''mixer_target_temp'' (projr (dev_get mixer_0 ''mixer_target_temp'')),
      parameter_dict mixer_1 ''mixer_target_temp'' (projr (dev_get mixer_1 ''mixer_target_temp''))]
     = [1, 2]"
    unfolding rs_def .
  from a b c d show ?thesis by blast
qed

subsection \<open>The schedule decoder\<close>

lemma str_nat_one_digit: "n < 10 \<Longrightarrow> str_nat n = [digit_char n]"
  by (simp add: str_nat.simps[of n])

lemma str_nat_two_digits:
  "10 \<le> n \<Longrightarrow> n < 100 \<Longrightarrow> str_nat n = [digit_char (n div 10), digit_char (n mod 10)]"
  by (simp add: str_nat.simps[of n] str_nat_one_digit)

lemma digit_char_0: "digit_char 0 = CHR ''0''"
  by code_simp

lemma two_digits_unfold:
  "n < 100 \<Longrightarrow> two_digits n = [digit_char (n div 10), digit_char (n mod 10)]"
  by (cases "n < 10") (simp_all add: two_digits_def str_nat_one_digit str_nat_two_digits digit_char_0)

lemma digit_char_inj: "a < 10 \<Longrightarrow> b < 10 \<Longrightarrow> digit_char a = digit_char b \<Longrightarrow> a = b"
  by (metis digit_val_digit_char)

lemma two_digits_inj:
  assumes "m < 100" "n < 100" "two_digits m = two_digits n"
  shows "m = n"
proof -
  from assms have "digit_char (m div 10) = digit_char (n div 10)"
    "digit_char (m mod 10) = digit_char (n mod 10)"
    by (simp_all add: two_digits_unfold)
  with assms have "m div 10 = n div 10" "m mod 10 = n mod 10"
    by (auto intro: digit_char_inj)
  then show ?thesis by (metis div_mult_mod_eq)
qed

lemma strftime_time_format:
  "strftime t TIME_FORMAT = two_digits (hour t) @ '':'' @ two_digits (minute t)"
  by (simp add: TIME_FORMAT_def directive_def)

lemma slot_key_eq:
  "slot_key i = two_digits (30 * i mod 1440 div 60) @ '':'' @ two_digits (30 * i mod 60)"
  by (simp add: slot_key_def strftime_time_format add_minutes_def START_OF_DAY_DT_def Let_def)

lemma slot_key_day:
  assumes "i < 48"
  shows "slot_key i = two_digits (i div 2) @ '':'' @ two_digits (30 * (i mod 2))"
proof -
  from assms have "30 * i mod 1440 div 60 = i div 2" by simp
  moreover have "30 * i mod 60 = 30 * (i mod 2)"
    using mult_mod_right[of 30 i 2] by simp
  ultimately show ?thesis by (simp add: slot_key_eq)
qed

lemma slot_key_inj: "inj_on slot_key {..<48}"
proof (rule inj_onI)
  fix i j assume "i \<in> {..<48::nat}" "j \<in> {..<48::nat}" and eq: "slot_key i = slot_key j"
  then have i: "i < 48" and j: "j < 48" by auto
  then have b: "i div 2 < 100" "j div 2 < 100" "30 * (i mod 2) < 100" "30 * (j mod 2) < 100"
    by simp_all
  from eq i j have "two_digits (i div 2) @ '':'' @ two_digits (30 * (i mod 2)) =
      two_digits (j div 2) @ '':'' @ two_digits (30 * (j mod 2))"
    by (simp add: slot_key_day)
  with b have h: "two_digits (i div 2) = two_digits (j div 2)"
    "two_digits (30 * (i mod 2)) = two_digits (30 * (j mod 2))"
    by (simp_all add: two_digits_unfold)
  have "i div 2 = j div 2" using b(1) b(2) h(1) by (rule two_digits_inj)
  moreover have "30 * (i mod 2) = 30 * (j mod 2)" using b(3) b(4) h(2) by (rule two_digits_inj)
  ultimately have "i div 2 = j div 2" "30 * (i mod 2) = 30 * (j mod 2)" by simp_all
  then have "i div 2 = j div 2" "i mod 2 = j mod 2" by simp_all
  then show "i = j" by (metis div_mult_mod_eq)
qed

lemma slot_key_length: "i < 48 \<Longrightarrow> length (slot_key i) = 5"
  by (simp add: slot_key_day two_digits_unfold)

lemma decode_snoc:
  "async_schedule_day_to_dict (xs @ [x]) =
     (async_schedule_day_to_dict xs)(slot_key (length xs) \<mapsto> (if x then STATE_DAY else STATE_NIGHT))"
  by (simp add: async_schedule_day_to_dict_def enumerate_append_eq)

lemma decode_dom: "dom (async_schedule_day_to_dict xs) = slot_key ` {..<length xs}"
proof (induction xs rule: rev_induct)
  case Nil
  then show ?case by (simp add: async_schedule_day_to_dict_def)
next
  case (snoc x xs)
  have "dom (async_schedule_day_to_dict (xs @ [x])) =
      insert (slot_key (length xs)) (dom (async_schedule_day_to_dict xs))"
    unfolding decode_snoc by (cases x) simp_all
  with snoc show ?case by (simp add: lessThan_Suc)
qed

lemma decode_lookup:
  assumes "inj_on slot_key {..<length xs}" and "i < length xs"
  shows "async_schedule_day_to_dict xs (slot_key i) =
     Some (if xs ! i then STATE_DAY else STATE_NIGHT)"
  using assms
proof (induction xs rule: rev_induct)
  case Nil
  then show ?case by simp
next
  case (snoc x xs)
  show ?case
  proof (cases "i = length xs")
    case True
    then show ?thesis by (simp add: decode_snoc)
  next
    case False
    with snoc.prems have i: "i < length xs" by simp
    from snoc.prems(1) have inj: "inj_on slot_key {..<length xs}"
      by (rule inj_on_subset) auto
    from snoc.prems(1) i have "slot_key i \<noteq> slot_key (length xs)"
      by (auto simp: inj_on_def)
    with snoc.IH[OF inj i] i show ?thesis
      by (simp add: decode_snoc nth_append)
  qed
qed

text \<open>
  Claim C8, as the code has it. For a schedule day of 48 slots the dictionary has
  exactly 48 keys, the key of slot \<open>i\<close> being the hour \<open>i div 2\<close> and the minute
  \<open>30 * (i mod 2)\<close>, two digits each, separated by a colon: \<open>00:00\<close>, \<open>00:30\<close>, up
  to \<open>23:30\<close>. The key of slot \<open>i\<close> maps to \<open>day\<close> when the slot is true and to
  \<open>night\<close> when it is false. The function is total.
\<close>

theorem schedule_day_to_dict_48:
  "length intervals = 48 \<longrightarrow>
     dom (async_schedule_day_to_dict intervals) = slot_key ` {..<48} \<and>
     card (dom (async_schedule_day_to_dict intervals)) = 48 \<and>
     (\<forall>i<48. slot_key i = two_digits (i div 2) @ '':'' @ two_digits (30 * (i mod 2)) \<and>
        async_schedule_day_to_dict intervals (slot_key i) =
          Some (if intervals ! i then STATE_DAY else STATE_NIGHT)) \<and>
     slot_key 0 = ''00:00'' \<and> slot_key 1 = ''00:30'' \<and> slot_key 47 = ''23:30''"
proof (intro impI conjI allI)
  assume len: "length intervals = 48"
  then show "dom (async_schedule_day_to_dict intervals) = slot_key ` {..<48}"
    by (simp add: decode_dom)
  from len show "card (dom (async_schedule_day_to_dict intervals)) = 48"
    by (simp add: decode_dom card_image[OF slot_key_inj])
  show "slot_key 0 = ''00:00''" "slot_key 1 = ''00:30''" "slot_key 47 = ''23:30''"
    by code_simp+
next
  fix i :: nat
  assume len: "length intervals = 48" and i: "i < 48"
  from i show "slot_key i = two_digits (i div 2) @ '':'' @ two_digits (30 * (i mod 2))"
    by (rule slot_key_day)
  from len i slot_key_inj show "async_schedule_day_to_dict intervals (slot_key i) =
          Some (if intervals ! i then STATE_DAY else STATE_NIGHT)"
    by (simp add: decode_lookup)
qed

theorem schedule_day_to_dict_48_witness:
  "length night_then_day = 48 \<and>
   card (dom (async_schedule_day_to_dict night_then_day)) = 48 \<and>
   async_schedule_day_to_dict night_then_day ''00:00'' = Some ''night'' \<and>
   async_schedule_day_to_dict night_then_day ''23:30'' = Some ''night''"
proof -
  have len: "length night_then_day = 48" by (simp add: night_then_day_def)
  have v: "\<not> night_then_day ! 0" "\<not> night_then_day ! 47"
    by (simp_all add: night_then_day_def nth_append)
  have k: "slot_key 0 = ''00:00''" "slot_key 47 = ''23:30''" by code_simp+
  note r = schedule_day_to_dict_48[of night_then_day, THEN mp, OF len]
  note c = r[THEN conjunct2, THEN conjunct1]
  note l = r[THEN conjunct2, THEN conjunct2, THEN conjunct1, rule_format, THEN conjunct2]
  have "async_schedule_day_to_dict night_then_day (slot_key 0) =
       Some (if night_then_day ! 0 then STATE_DAY else STATE_NIGHT)"
    "async_schedule_day_to_dict night_then_day (slot_key 47) =
       Some (if night_then_day ! 47 then STATE_DAY else STATE_NIGHT)"
    by (rule l, simp)+
  with len v k c show ?thesis by (simp add: STATE_NIGHT_def)
qed

text \<open>
  Claim C8, as stated, fails on the format of the keys: they carry no seconds, so
  \<open>00:00:00\<close> is not a key of the dictionary, while \<open>00:00\<close> is.
\<close>

theorem schedule_keys_without_seconds_counterexample:
  "length night_then_day = 48 \<and>
   async_schedule_day_to_dict night_then_day ''00:00:00'' = None \<and>
   async_schedule_day_to_dict night_then_day ''00:00'' = Some ''night''"
proof -
  have len: "length night_then_day = 48" by (simp add: night_then_day_def)
  have nk: "''00:00:00'' \<notin> slot_key ` {..<48}"
  proof
    assume "''00:00:00'' \<in> slot_key ` {..<48}"
    then obtain i where "i < 48" "slot_key i = ''00:00:00''" by auto
    with slot_key_length[of i] show False by simp
  qed
  have "''00:00:00'' \<notin> dom (async_schedule_day_to_dict night_then_day)"
    unfolding decode_dom len by (rule nk)
  then have a: "async_schedule_day_to_dict night_then_day ''00:00:00'' = None"
    by (cases "async_schedule_day_to_dict night_then_day ''00:00:00''") (auto intro: domI)
  have k: "slot_key 0 = ''00:00''" by code_simp
  have "async_schedule_day_to_dict night_then_day (slot_key 0) =
       Some (if night_then_day ! 0 then STATE_DAY else STATE_NIGHT)"
    using len slot_key_inj by (intro decode_lookup) simp_all
  then have b: "async_schedule_day_to_dict night_then_day ''00:00'' = Some ''night''"
    by (simp add: k night_then_day_def nth_append STATE_NIGHT_def)
  from len a b show ?thesis by blast
qed

subsection \<open>Alert events\<close>

lemma strftime_date_format:
  "strftime t DATE_STR_FORMAT =
     str_nat (year t) @ ''-'' @ two_digits (month t) @ ''-'' @ two_digits (day t) @ '' '' @
     two_digits (hour t) @ '':'' @ two_digits (minute t) @ '':'' @ two_digits (second t)"
  by (simp add: DATE_STR_FORMAT_def directive_def)

lemma str_nat_four_digits:
  assumes "1000 \<le> n" "n < 10000"
  shows "str_nat n = [digit_char (n div 1000), digit_char (n div 100 mod 10),
                      digit_char (n div 10 mod 10), digit_char (n mod 10)]"
proof -
  from assms have a: "10 \<le> n div 100" "n div 100 < 100" by simp_all
  from assms have b: "\<not> n div 10 < 10" "\<not> n < 10" by simp_all
  have "str_nat n = str_nat (n div 10) @ [digit_char (n mod 10)]"
    using b by (simp add: str_nat.simps[of n])
  also have "str_nat (n div 10) = str_nat (n div 10 div 10) @ [digit_char (n div 10 mod 10)]"
    using b by (simp add: str_nat.simps[of "n div 10"])
  also have "n div 10 div 10 = n div 100" by (simp add: div_mult2_eq)
  also have "str_nat (n div 100) = [digit_char (n div 100 div 10), digit_char (n div 100 mod 10)]"
    using a by (rule str_nat_two_digits)
  also have "n div 100 div 10 = n div 1000" by (simp add: div_mult2_eq)
  finally show ?thesis by simp
qed

lemma layout_two_digits:
  "n < 100 \<Longrightarrow> map (\<lambda>c. if is_digit c then CHR ''9'' else c) (two_digits n) = ''99''"
  by (simp add: two_digits_unfold is_digit_digit_char)

lemma strftime_layout:
  assumes "four_digit_date t"
  shows "timestamp_layout (strftime t DATE_STR_FORMAT)"
proof -
  from assms have y: "1000 \<le> year t" "year t < 10000"
    and r: "month t < 100" "day t < 100" "hour t < 100" "minute t < 100" "second t < 100"
    by (simp_all add: four_digit_date_def)
  from y have d: "year t div 1000 < 10" by simp
  have sep: "\<not> is_digit CHR ''-''" "\<not> is_digit CHR '' ''" "\<not> is_digit CHR '':''"
    by (simp_all add: is_digit_def)
  have "map (\<lambda>c. if is_digit c then CHR ''9'' else c) (str_nat (year t)) = ''9999''"
    using d by (simp add: str_nat_four_digits[OF y] is_digit_digit_char)
  with r sep show ?thesis
    by (simp add: timestamp_layout_def strftime_date_format layout_two_digits)
qed

lemma dispatch_fold:
  "foldl (\<lambda>b a. b @ [f a]) bus alerts = bus @ map f alerts"
  by (induction alerts arbitrary: bus) simp_all

lemmas attr_defs = ATTR_NAME_def ATTR_DEVICE_ID_def ATTR_CODE_def ATTR_FROM_def ATTR_TO_def

lemma event_data_fields:
  "alert_event_data name device_id a ATTR_NAME = Some (EStr name)"
  "alert_event_data name device_id a ATTR_DEVICE_ID = Some (EStr device_id)"
  "alert_event_data name device_id a ATTR_CODE = Some (EInt (code a))"
  "alert_event_data name device_id a ATTR_FROM = Some (EStr (strftime (from_dt a) DATE_STR_FORMAT))"
  "alert_event_data name device_id a ATTR_TO =
     (case to_dt a of None \<Rightarrow> None | Some t \<Rightarrow> Some (EStr (strftime t DATE_STR_FORMAT)))"
  by (simp_all add: alert_event_data_def attr_defs Let_def split: option.splits)

text \<open>
  Claim C9. When the registry resolves the connection's device, the bus gains exactly
  one event per alert, in order, each under the alert topic and carrying the
  connection name, the id of the resolved device, the alert code and the start time
  printed with \<open>DATE_STR_FORMAT\<close>; the end time is carried, printed the same way,
  exactly when the alert has one. A time whose year has four digits is printed in the
  layout \<open>YYYY-MM-DD HH:MM:SS\<close>.
\<close>

theorem alert_events_dispatched:
  "dr (DOMAIN, uid) = Some device_id \<longrightarrow>
     async_dispatch_alert_events dr name uid alerts bus =
       bus @ map (\<lambda>a. (EVENT_PLUM_ECOMAX_ALERT, alert_event_data name device_id a)) alerts \<and>
     length (async_dispatch_alert_events dr name uid alerts bus) = length bus + length alerts \<and>
     (\<forall>a \<in> set alerts.
        alert_event_data name device_id a ATTR_NAME = Some (EStr name) \<and>
        alert_event_data name device_id a ATTR_DEVICE_ID = Some (EStr device_id) \<and>
        alert_event_data name device_id a ATTR_CODE = Some (EInt (code a)) \<and>
        alert_event_data name device_id a ATTR_FROM =
          Some (EStr (strftime (from_dt a) DATE_STR_FORMAT)) \<and>
        alert_event_data name device_id a ATTR_TO =
          (case to_dt a of None \<Rightarrow> None | Some t \<Rightarrow> Some (EStr (strftime t DATE_STR_FORMAT))) \<and>
        (ATTR_TO \<in> dom (alert_event_data name device_id a) \<longleftrightarrow> to_dt a \<noteq> None) \<and>
        (four_digit_date (from_dt a) \<longrightarrow>
           timestamp_layout (strftime (from_dt a) DATE_STR_FORMAT)) \<and>
        (\<forall>t. to_dt a = Some t \<and> four_digit_date t \<longrightarrow>
           timestamp_layout (strftime t DATE_STR_FORMAT)))"
proof (intro impI conjI ballI allI)
  assume r: "dr (DOMAIN, uid) = Some device_id"
  then show e: "async_dispatch_alert_events dr name uid alerts bus =
       bus @ map (\<lambda>a. (EVENT_PLUM_ECOMAX_ALERT, alert_event_data name device_id a)) alerts"
    by (simp add: async_dispatch_alert_events_def dispatch_fold)
  then show "length (async_dispatch_alert_events dr name uid alerts bus) =
      length bus + length alerts"
    by simp
next
  fix a
  show "ATTR_TO \<in> dom (alert_event_data name device_id a) \<longleftrightarrow> to_dt a \<noteq> None"
    by (auto simp: event_data_fields(5) domIff split: option.splits)
qed (simp_all add: event_data_fields strftime_layout)

theorem alert_events_dispatched_witness:
  "example_device_registry (DOMAIN, ''D251PAKR3GCPZ1K8G05G0'') = Some ''4b2f0c3d9e'' \<and>
   async_dispatch_alert_events example_device_registry ''ecomax.local''
       ''D251PAKR3GCPZ1K8G05G0'' [alert_ongoing, alert_concluded] [] =
     [(''plum_ecomax_alert'',
       [''name'' \<mapsto> EStr ''ecomax.local'', ''device_id'' \<mapsto> EStr ''4b2f0c3d9e'',
        ''code'' \<mapsto> EInt 26, ''from'' \<mapsto> EStr ''2023-07-09 06:05:00'']),
      (''plum_ecomax_alert'',
       [''name'' \<mapsto> EStr ''ecomax.local'', ''device_id'' \<mapsto> EStr ''4b2f0c3d9e'',
        ''code'' \<mapsto> EInt 0, ''from'' \<mapsto> EStr ''2023-07-08 22:30:15'',
        ''to'' \<mapsto> EStr ''2023-07-08 23:45:59''])]"
proof -
  have r: "example_device_registry (DOMAIN, ''D251PAKR3GCPZ1K8G05G0'') = Some ''4b2f0c3d9e''"
    by (simp add: example_device_registry_def DOMAIN_def)
  have f: "strftime (from_dt alert_ongoing) DATE_STR_FORMAT = ''2023-07-09 06:05:00''"
    "strftime (from_dt alert_concluded) DATE_STR_FORMAT = ''2023-07-08 22:30:15''"
    "strftime \<lparr>year = 2023, month = 7, day = 8, hour = 23, minute = 45, second = 59\<rparr>
       DATE_STR_FORMAT = ''2023-07-08 23:45:59''"
    by code_simp+
  note t = alert_events_dispatched[of example_device_registry "''D251PAKR3GCPZ1K8G05G0''"
      "''4b2f0c3d9e''" "''ecomax.local''" "[alert_ongoing, alert_concluded]" "[]",
      THEN mp, OF r, THEN conjunct1]
  have "alert_event_data ''ecomax.local'' ''4b2f0c3d9e'' alert_ongoing =
      [''name'' \<mapsto> EStr ''ecomax.local'', ''device_id'' \<mapsto> EStr ''4b2f0c3d9e'',
        ''code'' \<mapsto> EInt 26, ''from'' \<mapsto> EStr ''2023-07-09 06:05:00'']"
    using f(1) by (simp add: alert_event_data_def attr_defs alert_ongoing_def)
  moreover have "alert_event_data ''ecomax.local'' ''4b2f0c3d9e'' alert_concluded =
      [''name'' \<mapsto> EStr ''ecomax.local'', ''device_id'' \<mapsto> EStr ''4b2f0c3d9e'',
        ''code'' \<mapsto> EInt 0, ''from'' \<mapsto> EStr ''2023-07-08 22:30:15'',
        ''to'' \<mapsto> EStr ''2023-07-08 23:45:59'']"
    using f(2,3) by (simp add: alert_event_data_def attr_defs alert_concluded_def)
  ultimately show ?thesis using t r by (simp add: EVENT_PLUM_ECOMAX_ALERT_def)
qed

end
